theory Spec2Isabelle
  imports Main
begin

section \<open>Data model (src/db/tables.ts, the table definitions)\<close>

text \<open>
  Every table is the list of its rows, in storage order. An optional column is an
  \<open>option\<close> (\<open>None\<close> is SQL NULL), a numeric id is an \<open>int\<close> (the schemas ask for
  \<open>z.number().int()\<close>), a date is a point in time counted as an integer, a text column is
  a \<open>string\<close>. The fields of a row carry the name of the column, prefixed by a letter for
  the table, since the four tables share column names.
\<close>

type_synonym date = int

datatype json = JNull | JBool bool | JNum int | JStr string
  | JArr "json list" | JObj "(string \<times> json) list"

datatype difficulty = Basic | Intermediate | Advanced

datatype familiarity = New | Learning | Comfortable | Mastered

record variable =
  symbol :: string
  meaning :: "string option"
  unit :: "string option"

record formulaGroup =
  g_id :: int
  g_ownerId :: "string option"
  g_name :: string
  g_subject :: "string option"
  g_tags :: "string option"
  g_description :: "string option"
  g_slug :: "string option"
  g_isActive :: bool
  g_createdAt :: date
  g_updatedAt :: date

record formula =
  f_id :: int
  f_groupId :: "int option"
  f_name :: string
  f_expression :: string
  f_description :: "string option"
  f_variables :: "variable list option"
  f_meta :: "(string \<times> json) list option"
  f_difficulty :: difficulty
  f_isActive :: bool
  f_createdAt :: date
  f_updatedAt :: date

record formulaExample =
  e_id :: int
  e_formulaId :: int
  e_title :: "string option"
  e_problem :: string
  e_solution :: string
  e_data :: "(string \<times> json) list option"
  e_createdAt :: date

record userFormulaState =
  s_id :: int
  s_userId :: string
  s_formulaId :: int
  s_isFavorite :: bool
  s_note :: "string option"
  s_familiarity :: familiarity
  s_createdAt :: date
  s_updatedAt :: date

record db =
  FormulaGroups :: "formulaGroup list"
  Formulas :: "formula list"
  FormulaExamples :: "formulaExample list"
  UserFormulaState :: "userFormulaState list"

section \<open>The storage operations the handlers call\<close>

text \<open>
  The handlers use four operations of the storage library: \<open>select().from(T).where(c)\<close>
  returns the rows of \<open>T\<close> that satisfy \<open>c\<close>; \<open>update(T).set(p).where(c)\<close> applies the
  patch \<open>p\<close> to the rows that satisfy \<open>c\<close> and leaves every other row as it is, and
  \<open>.returning()\<close> gives the patched rows; \<open>insert(T).values(v).returning()\<close> appends one
  row, whose auto-incremented primary key is one more than the largest key of the table,
  and gives that row. A comparison \<open>eq(column, v)\<close> on a NULL column selects nothing.

  A column declared with \<open>references\<close> is a foreign key: a write that would store in it
  a value that is no key of the referenced table is refused, the call throws and nothing
  is written. \<open>Formulas.groupId\<close> references \<open>FormulaGroups.id\<close>, and the handlers that
  write it run \<open>getOwnedGroup\<close> on the value first; \<open>FormulaExamples.formulaId\<close>
  references \<open>Formulas.id\<close>, and \<open>createFormulaExample\<close> runs \<open>ensureFormulaIsEditable\<close>
  on the value first; so these writes find the row they refer to (the lemmas
  \<open>getOwnedGroup_Inr_key\<close> and \<open>ensureFormulaIsEditable_Inr_key\<close>).
  \<open>UserFormulaState.formulaId\<close> references \<open>Formulas.id\<close> too, and
  \<open>upsertUserFormulaState\<close> looks no formula up: its insert is the one write that the
  constraint can refuse.
\<close>

definition select_where :: "('r \<Rightarrow> bool) \<Rightarrow> 'r list \<Rightarrow> 'r list" where
  "select_where c rows = filter c rows"

definition update_where :: "('r \<Rightarrow> bool) \<Rightarrow> ('r \<Rightarrow> 'r) \<Rightarrow> 'r list \<Rightarrow> 'r list" where
  "update_where c p rows = map (\<lambda>r. if c r then p r else r) rows"

definition returning :: "('r \<Rightarrow> bool) \<Rightarrow> ('r \<Rightarrow> 'r) \<Rightarrow> 'r list \<Rightarrow> 'r list" where
  "returning c p rows = map p (filter c rows)"

definition nextId :: "int list \<Rightarrow> int" where
  "nextId ids = foldr max ids 0 + 1"

text \<open>\<open>const [row] = ...\<close>: the first row of a result, \<open>undefined\<close> when there is none.\<close>

definition first_row :: "'r list \<Rightarrow> 'r option" where
  "first_row rows = (case rows of [] \<Rightarrow> None | r # _ \<Rightarrow> Some r)"

section \<open>Errors, the caller and the response envelope\<close>

datatype errorCode = UNAUTHORIZED | NOT_FOUND | FORBIDDEN

text \<open>
  What a handler throws: an \<open>ActionError\<close> of the source, with its code and message, or
  the error of the storage library when a constraint of the schema refuses a write
  (a \<open>LibsqlError\<close>, with the code of the constraint), which no handler catches.
\<close>

datatype thrown = ActionError errorCode string | LibsqlError string

record appUser =
  user_id :: string

record appLocals =
  user :: "appUser option"

record actionAPIContext =
  locals :: "appLocals option"

datatype payload =
    GroupData "formulaGroup option"
  | FormulaData "formula option"
  | ExampleData "formulaExample option"
  | StateData "userFormulaState option"
  | GroupItems "formulaGroup list" nat
  | FormulaItems "formula list" nat
  | ExampleItems "formulaExample list" nat
  | StateItems "userFormulaState list" nat

record response =
  success :: bool
  data :: "payload option"

text \<open>
  A handler takes its validated input, the request context, the value \<open>new Date()\<close> has
  during the call and the database; it gives the thrown error or the returned response,
  and the database after the call.
\<close>

type_synonym result = "(thrown + response) \<times> db"

definition requireUser :: "actionAPIContext \<Rightarrow> thrown + appUser" where
  "requireUser context =
     (case locals context of
        None \<Rightarrow> Inl (ActionError UNAUTHORIZED ''You must be signed in to perform this action.'')
      | Some l \<Rightarrow>
          (case user l of
             None \<Rightarrow> Inl (ActionError UNAUTHORIZED ''You must be signed in to perform this action.'')
           | Some u \<Rightarrow> Inr u))"

section \<open>The ownership chain\<close>

text \<open>
  \<open>group.ownerId && group.ownerId !== userId\<close>: in JavaScript NULL and the empty string
  are both falsy, every other string is truthy.
\<close>

definition truthy :: "string option \<Rightarrow> bool" where
  "truthy s = (case s of None \<Rightarrow> False | Some t \<Rightarrow> t \<noteq> [])"

definition getOwnedGroup :: "db \<Rightarrow> int \<Rightarrow> string \<Rightarrow> thrown + formulaGroup" where
  "getOwnedGroup d groupId userId =
     (case select_where (\<lambda>g. g_id g = groupId) (FormulaGroups d) of
        [] \<Rightarrow> Inl (ActionError NOT_FOUND ''Formula group not found.'')
      | grp # _ \<Rightarrow>
          if truthy (g_ownerId grp) \<and> g_ownerId grp \<noteq> Some userId
          then Inl (ActionError FORBIDDEN ''You do not have access to this group.'')
          else Inr grp)"

definition ensureFormulaIsEditable :: "db \<Rightarrow> int \<Rightarrow> string \<Rightarrow> thrown + formula" where
  "ensureFormulaIsEditable d formulaId userId =
     (case select_where (\<lambda>f. f_id f = formulaId) (Formulas d) of
        [] \<Rightarrow> Inl (ActionError NOT_FOUND ''Formula not found.'')
      | formula # _ \<Rightarrow>
          (case f_groupId formula of
             None \<Rightarrow> Inr formula
           | Some gid \<Rightarrow>
               (case getOwnedGroup d gid userId of
                  Inl e \<Rightarrow> Inl e
                | Inr _ \<Rightarrow> Inr formula)))"

section \<open>Inputs of the actions\<close>

text \<open>
  The input a handler receives has passed the schema of its action: a field declared
  \<open>.optional()\<close> is an \<open>option\<close> (\<open>None\<close> is \<open>undefined\<close>), a field with a
  \<open>.default(...)\<close> is always present, and an input object that is itself optional is
  an \<open>option\<close> of the record.
\<close>

record createGroupInput =
  cg_name :: string
  cg_subject :: "string option"
  cg_tags :: "string option"
  cg_description :: "string option"
  cg_slug :: "string option"
  cg_isActive :: "bool option"

record updateGroupInput =
  ug_id :: int
  ug_name :: "string option"
  ug_subject :: "string option"
  ug_tags :: "string option"
  ug_description :: "string option"
  ug_slug :: "string option"
  ug_isActive :: "bool option"

record listGroupsInput =
  lg_includeInactive :: bool

record createFormulaInput =
  cf_groupId :: "int option"
  cf_name :: string
  cf_expression :: string
  cf_description :: "string option"
  cf_variables :: "variable list option"
  cf_meta :: "(string \<times> json) list option"
  cf_difficulty :: difficulty
  cf_isActive :: "bool option"

record updateFormulaInput =
  uf_id :: int
  uf_groupId :: "int option"
  uf_name :: "string option"
  uf_expression :: "string option"
  uf_description :: "string option"
  uf_variables :: "variable list option"
  uf_meta :: "(string \<times> json) list option"
  uf_difficulty :: "difficulty option"
  uf_isActive :: "bool option"

record archiveFormulaInput =
  af_id :: int

record listFormulasInput =
  lf_groupId :: "int option"
  lf_difficulty :: "difficulty option"
  lf_includeInactive :: bool

record createExampleInput =
  ce_formulaId :: int
  ce_title :: "string option"
  ce_problem :: string
  ce_solution :: string
  ce_data :: "(string \<times> json) list option"

record listExamplesInput =
  le_formulaId :: int

record upsertStateInput =
  us_formulaId :: int
  us_isFavorite :: "bool option"
  us_note :: "string option"
  us_familiarity :: "familiarity option"

record listStatesInput =
  ls_favoritesOnly :: bool

section \<open>Group actions\<close>

text \<open>\<open>x ?? d\<close>: the value of an optional field, \<open>d\<close> when it is absent.\<close>

definition orElse :: "'a option \<Rightarrow> 'a \<Rightarrow> 'a" where
  "orElse x d = (case x of None \<Rightarrow> d | Some v \<Rightarrow> v)"

text \<open>
  \<open>...(input.f !== undefined ? { f: input.f } : {})\<close> on a required column and on an
  optional column: the column takes the supplied value, and keeps its own otherwise.
\<close>

definition provided :: "'a option \<Rightarrow> 'a \<Rightarrow> 'a" where
  "provided x old = (case x of None \<Rightarrow> old | Some v \<Rightarrow> v)"

definition providedOpt :: "'a option \<Rightarrow> 'a option \<Rightarrow> 'a option" where
  "providedOpt x old = (case x of None \<Rightarrow> old | Some v \<Rightarrow> Some v)"

definition createFormulaGroup :: "createGroupInput \<Rightarrow> actionAPIContext \<Rightarrow> date \<Rightarrow> db \<Rightarrow> result" where
  "createFormulaGroup input context now d =
     (case requireUser context of
        Inl e \<Rightarrow> (Inl e, d)
      | Inr u \<Rightarrow>
          let grp = \<lparr> g_id = nextId (map g_id (FormulaGroups d)),
                      g_ownerId = Some (user_id u),
                      g_name = cg_name input,
                      g_subject = cg_subject input,
                      g_tags = cg_tags input,
                      g_description = cg_description input,
                      g_slug = cg_slug input,
                      g_isActive = orElse (cg_isActive input) True,
                      g_createdAt = now,
                      g_updatedAt = now \<rparr>
          in (Inr \<lparr> success = True, data = Some (GroupData (Some grp)) \<rparr>,
              d\<lparr> FormulaGroups := FormulaGroups d @ [grp] \<rparr>))"

definition groupPatch :: "updateGroupInput \<Rightarrow> date \<Rightarrow> formulaGroup \<Rightarrow> formulaGroup" where
  "groupPatch input now g =
     g\<lparr> g_name := provided (ug_name input) (g_name g),
        g_subject := providedOpt (ug_subject input) (g_subject g),
        g_tags := providedOpt (ug_tags input) (g_tags g),
        g_description := providedOpt (ug_description input) (g_description g),
        g_slug := providedOpt (ug_slug input) (g_slug g),
        g_isActive := provided (ug_isActive input) (g_isActive g),
        g_updatedAt := now \<rparr>"

definition updateFormulaGroup :: "updateGroupInput \<Rightarrow> actionAPIContext \<Rightarrow> date \<Rightarrow> db \<Rightarrow> result" where
  "updateFormulaGroup input context now d =
     (case requireUser context of
        Inl e \<Rightarrow> (Inl e, d)
      | Inr u \<Rightarrow>
          (case getOwnedGroup d (ug_id input) (user_id u) of
             Inl e \<Rightarrow> (Inl e, d)
           | Inr _ \<Rightarrow>
               let c = (\<lambda>g. g_id g = ug_id input);
                   updated = first_row (returning c (groupPatch input now) (FormulaGroups d))
               in (Inr \<lparr> success = True, data = Some (GroupData updated) \<rparr>,
                   d\<lparr> FormulaGroups := update_where c (groupPatch input now) (FormulaGroups d) \<rparr>)))"

definition listMyFormulaGroups :: "listGroupsInput option \<Rightarrow> actionAPIContext \<Rightarrow> date \<Rightarrow> db \<Rightarrow> result" where
  "listMyFormulaGroups input context now d =
     (case requireUser context of
        Inl e \<Rightarrow> (Inl e, d)
      | Inr u \<Rightarrow>
          let includeInactive = (case input of None \<Rightarrow> False | Some i \<Rightarrow> lg_includeInactive i);
              groups = select_where
                 (\<lambda>g. if includeInactive then g_ownerId g = Some (user_id u)
                      else g_ownerId g = Some (user_id u) \<and> g_isActive g = True)
                 (FormulaGroups d)
          in (Inr \<lparr> success = True, data = Some (GroupItems groups (length groups)) \<rparr>, d))"

section \<open>Formula actions\<close>

definition createFormula :: "createFormulaInput \<Rightarrow> actionAPIContext \<Rightarrow> date \<Rightarrow> db \<Rightarrow> result" where
  "createFormula input context now d =
     (case requireUser context of
        Inl e \<Rightarrow> (Inl e, d)
      | Inr u \<Rightarrow>
          (case (case cf_groupId input of
                   None \<Rightarrow> Inr ()
                 | Some gid \<Rightarrow>
                     (case getOwnedGroup d gid (user_id u) of Inl e \<Rightarrow> Inl e | Inr _ \<Rightarrow> Inr ())) of
             Inl e \<Rightarrow> (Inl e, d)
           | Inr _ \<Rightarrow>
               let formula = \<lparr> f_id = nextId (map f_id (Formulas d)),
                                 f_groupId = cf_groupId input,
                                 f_name = cf_name input,
                                 f_expression = cf_expression input,
                                 f_description = cf_description input,
                                 f_variables = cf_variables input,
                                 f_meta = cf_meta input,
                                 f_difficulty = cf_difficulty input,
                                 f_isActive = orElse (cf_isActive input) True,
                                 f_createdAt = now,
                                 f_updatedAt = now \<rparr>
               in (Inr \<lparr> success = True, data = Some (FormulaData (Some formula)) \<rparr>,
                   d\<lparr> Formulas := Formulas d @ [formula] \<rparr>)))"

definition formulaPatch :: "updateFormulaInput \<Rightarrow> date \<Rightarrow> formula \<Rightarrow> formula" where
  "formulaPatch input now f =
     f\<lparr> f_groupId := providedOpt (uf_groupId input) (f_groupId f),
        f_name := provided (uf_name input) (f_name f),
        f_expression := provided (uf_expression input) (f_expression f),
        f_description := providedOpt (uf_description input) (f_description f),
        f_variables := providedOpt (uf_variables input) (f_variables f),
        f_meta := providedOpt (uf_meta input) (f_meta f),
        f_difficulty := provided (uf_difficulty input) (f_difficulty f),
        f_isActive := provided (uf_isActive input) (f_isActive f),
        f_updatedAt := now \<rparr>"

definition updateFormula :: "updateFormulaInput \<Rightarrow> actionAPIContext \<Rightarrow> date \<Rightarrow> db \<Rightarrow> result" where
  "updateFormula input context now d =
     (case requireUser context of
        Inl e \<Rightarrow> (Inl e, d)
      | Inr u \<Rightarrow>
          (case ensureFormulaIsEditable d (uf_id input) (user_id u) of
             Inl e \<Rightarrow> (Inl e, d)
           | Inr formula \<Rightarrow>
               (case (case uf_groupId input of
                        Some gid \<Rightarrow>
                          (case getOwnedGroup d gid (user_id u) of Inl e \<Rightarrow> Inl e | Inr _ \<Rightarrow> Inr ())
                      | None \<Rightarrow>
                          (case f_groupId formula of
                             Some gid \<Rightarrow>
                               (case getOwnedGroup d gid (user_id u) of
                                  Inl e \<Rightarrow> Inl e | Inr _ \<Rightarrow> Inr ())
                           | None \<Rightarrow> Inr ())) of
                  Inl e \<Rightarrow> (Inl e, d)
                | Inr _ \<Rightarrow>
                    let c = (\<lambda>f. f_id f = uf_id input);
                        updated = first_row (returning c (formulaPatch input now) (Formulas d))
                    in (Inr \<lparr> success = True, data = Some (FormulaData updated) \<rparr>,
                        d\<lparr> Formulas := update_where c (formulaPatch input now) (Formulas d) \<rparr>))))"

definition archivePatch :: "date \<Rightarrow> formula \<Rightarrow> formula" where
  "archivePatch now f = f\<lparr> f_isActive := False, f_updatedAt := now \<rparr>"

definition archiveFormula :: "archiveFormulaInput \<Rightarrow> actionAPIContext \<Rightarrow> date \<Rightarrow> db \<Rightarrow> result" where
  "archiveFormula input context now d =
     (case requireUser context of
        Inl e \<Rightarrow> (Inl e, d)
      | Inr u \<Rightarrow>
          (case ensureFormulaIsEditable d (af_id input) (user_id u) of
             Inl e \<Rightarrow> (Inl e, d)
           | Inr _ \<Rightarrow>
               (Inr \<lparr> success = True, data = None \<rparr>,
                d\<lparr> Formulas := update_where (\<lambda>f. f_id f = af_id input) (archivePatch now) (Formulas d) \<rparr>)))"

definition listFormulas :: "listFormulasInput option \<Rightarrow> actionAPIContext \<Rightarrow> date \<Rightarrow> db \<Rightarrow> result" where
  "listFormulas input context now d =
     (case requireUser context of
        Inl e \<Rightarrow> (Inl e, d)
      | Inr _ \<Rightarrow>
          let includeInactive = (case input of None \<Rightarrow> False | Some i \<Rightarrow> lf_includeInactive i);
              filters =
                (case input of
                   Some i \<Rightarrow> (case lf_groupId i of
                                Some gid \<Rightarrow> [\<lambda>f. f_groupId f = Some gid] | None \<Rightarrow> [])
                 | None \<Rightarrow> [])
                @ (case input of
                     Some i \<Rightarrow> (case lf_difficulty i of
                                  Some df \<Rightarrow> [\<lambda>f. f_difficulty f = df] | None \<Rightarrow> [])
                   | None \<Rightarrow> [])
                @ (if \<not> includeInactive then [\<lambda>f. f_isActive f = True] else []);
              formulas = (if length filters \<noteq> 0
                          then select_where (\<lambda>f. list_all (\<lambda>c. c f) filters) (Formulas d)
                          else Formulas d)
          in (Inr \<lparr> success = True, data = Some (FormulaItems formulas (length formulas)) \<rparr>, d))"

section \<open>Example actions\<close>

definition createFormulaExample :: "createExampleInput \<Rightarrow> actionAPIContext \<Rightarrow> date \<Rightarrow> db \<Rightarrow> result" where
  "createFormulaExample input context now d =
     (case requireUser context of
        Inl e \<Rightarrow> (Inl e, d)
      | Inr u \<Rightarrow>
          (case ensureFormulaIsEditable d (ce_formulaId input) (user_id u) of
             Inl e \<Rightarrow> (Inl e, d)
           | Inr formula \<Rightarrow>
               (case (case f_groupId formula of
                        Some gid \<Rightarrow>
                          (case getOwnedGroup d gid (user_id u) of Inl e \<Rightarrow> Inl e | Inr _ \<Rightarrow> Inr ())
                      | None \<Rightarrow> Inr ()) of
                  Inl e \<Rightarrow> (Inl e, d)
                | Inr _ \<Rightarrow>
                    let example = \<lparr> e_id = nextId (map e_id (FormulaExamples d)),
                                      e_formulaId = ce_formulaId input,
                                      e_title = ce_title input,
                                      e_problem = ce_problem input,
                                      e_solution = ce_solution input,
                                      e_data = ce_data input,
                                      e_createdAt = now \<rparr>
                    in (Inr \<lparr> success = True, data = Some (ExampleData (Some example)) \<rparr>,
                        d\<lparr> FormulaExamples := FormulaExamples d @ [example] \<rparr>))))"

definition listFormulaExamples :: "listExamplesInput \<Rightarrow> actionAPIContext \<Rightarrow> date \<Rightarrow> db \<Rightarrow> result" where
  "listFormulaExamples input context now d =
     (case requireUser context of
        Inl e \<Rightarrow> (Inl e, d)
      | Inr _ \<Rightarrow>
          let examples = select_where (\<lambda>x. e_formulaId x = le_formulaId input) (FormulaExamples d)
          in (Inr \<lparr> success = True, data = Some (ExampleItems examples (length examples)) \<rparr>, d))"

section \<open>User-state actions\<close>

definition statePatch :: "upsertStateInput \<Rightarrow> date \<Rightarrow> userFormulaState \<Rightarrow> userFormulaState" where
  "statePatch input now s =
     s\<lparr> s_isFavorite := provided (us_isFavorite input) (s_isFavorite s),
        s_note := providedOpt (us_note input) (s_note s),
        s_familiarity := provided (us_familiarity input) (s_familiarity s),
        s_updatedAt := now \<rparr>"

definition upsertUserFormulaState :: "upsertStateInput \<Rightarrow> actionAPIContext \<Rightarrow> date \<Rightarrow> db \<Rightarrow> result" where
  "upsertUserFormulaState input context now d =
     (case requireUser context of
        Inl e \<Rightarrow> (Inl e, d)
      | Inr u \<Rightarrow>
          (case select_where
                  (\<lambda>s. s_formulaId s = us_formulaId input \<and> s_userId s = user_id u)
                  (UserFormulaState d) of
             existing # _ \<Rightarrow>
               let c = (\<lambda>s. s_id s = s_id existing);
                   state = first_row (returning c (statePatch input now) (UserFormulaState d))
               in (Inr \<lparr> success = True, data = Some (StateData state) \<rparr>,
                   d\<lparr> UserFormulaState := update_where c (statePatch input now) (UserFormulaState d) \<rparr>)
           | [] \<Rightarrow>
               if us_formulaId input \<notin> set (map f_id (Formulas d))
               then (Inl (LibsqlError ''SQLITE_CONSTRAINT_FOREIGNKEY''), d)
               else
               let state = \<lparr> s_id = nextId (map s_id (UserFormulaState d)),
                               s_userId = user_id u,
                               s_formulaId = us_formulaId input,
                               s_isFavorite = orElse (us_isFavorite input) False,
                               s_note = us_note input,
                               s_familiarity = orElse (us_familiarity input) New,
                               s_createdAt = now,
                               s_updatedAt = now \<rparr>
               in (Inr \<lparr> success = True, data = Some (StateData (Some state)) \<rparr>,
                   d\<lparr> UserFormulaState := UserFormulaState d @ [state] \<rparr>)))"

definition listUserFormulaStates :: "listStatesInput option \<Rightarrow> actionAPIContext \<Rightarrow> date \<Rightarrow> db \<Rightarrow> result" where
  "listUserFormulaStates input context now d =
     (case requireUser context of
        Inl e \<Rightarrow> (Inl e, d)
      | Inr u \<Rightarrow>
          let favoritesOnly = (case input of None \<Rightarrow> False | Some i \<Rightarrow> ls_favoritesOnly i);
              filters = [\<lambda>s. s_userId s = user_id u]
                        @ (if favoritesOnly then [\<lambda>s. s_isFavorite s = True] else []);
              states = select_where (\<lambda>s. list_all (\<lambda>c. c s) filters) (UserFormulaState d)
          in (Inr \<lparr> success = True, data = Some (StateItems states (length states)) \<rparr>, d))"

section \<open>The server object\<close>

text \<open>
  \<open>server\<close> is the object of the eleven actions; calling one of them by its name, with its
  input, is a value of \<open>action\<close>.
\<close>

datatype action =
    CreateFormulaGroup createGroupInput
  | UpdateFormulaGroup updateGroupInput
  | ListMyFormulaGroups "listGroupsInput option"
  | CreateFormula createFormulaInput
  | UpdateFormula updateFormulaInput
  | ArchiveFormula archiveFormulaInput
  | ListFormulas "listFormulasInput option"
  | CreateFormulaExample createExampleInput
  | ListFormulaExamples listExamplesInput
  | UpsertUserFormulaState upsertStateInput
  | ListUserFormulaStates "listStatesInput option"

fun server :: "action \<Rightarrow> actionAPIContext \<Rightarrow> date \<Rightarrow> db \<Rightarrow> result" where
  "server (CreateFormulaGroup i) = createFormulaGroup i"
| "server (UpdateFormulaGroup i) = updateFormulaGroup i"
| "server (ListMyFormulaGroups i) = listMyFormulaGroups i"
| "server (CreateFormula i) = createFormula i"
| "server (UpdateFormula i) = updateFormula i"
| "server (ArchiveFormula i) = archiveFormula i"
| "server (ListFormulas i) = listFormulas i"
| "server (CreateFormulaExample i) = createFormulaExample i"
| "server (ListFormulaExamples i) = listFormulaExamples i"
| "server (UpsertUserFormulaState i) = upsertUserFormulaState i"
| "server (ListUserFormulaStates i) = listUserFormulaStates i"

section \<open>Example data\<close>

text \<open>
  A small database on which the theorems below are instantiated: a group owned by the
  user \<open>u1\<close>, a shared group, a formula in each of them and one outside every group,
  and two callers.
\<close>

definition ownedGroup :: formulaGroup where
  "ownedGroup = \<lparr> g_id = 1, g_ownerId = Some ''u1'', g_name = ''Kinematics'',
      g_subject = Some ''Physics'', g_tags = None, g_description = None, g_slug = None,
      g_isActive = True, g_createdAt = 10, g_updatedAt = 10 \<rparr>"

definition sharedGroup :: formulaGroup where
  "sharedGroup = \<lparr> g_id = 2, g_ownerId = None, g_name = ''Calculus'',
      g_subject = None, g_tags = None, g_description = None, g_slug = None,
      g_isActive = True, g_createdAt = 11, g_updatedAt = 11 \<rparr>"

definition ownedFormula :: formula where
  "ownedFormula = \<lparr> f_id = 1, f_groupId = Some 1, f_name = ''v=u+at'',
      f_expression = ''v=u+at'', f_description = None, f_variables = None, f_meta = None,
      f_difficulty = Basic, f_isActive = True, f_createdAt = 12, f_updatedAt = 12 \<rparr>"

definition sharedFormula :: formula where
  "sharedFormula = \<lparr> f_id = 2, f_groupId = Some 2, f_name = ''Chain rule'',
      f_expression = ''d(f o g) = (df o g) dg'', f_description = None, f_variables = None,
      f_meta = None, f_difficulty = Intermediate, f_isActive = True,
      f_createdAt = 13, f_updatedAt = 13 \<rparr>"

definition freeFormula :: formula where
  "freeFormula = \<lparr> f_id = 3, f_groupId = None, f_name = ''Ohm'',
      f_expression = ''V=IR'', f_description = Some ''Ohm law'', f_variables = None,
      f_meta = None, f_difficulty = Basic, f_isActive = True,
      f_createdAt = 14, f_updatedAt = 14 \<rparr>"

definition exampleDb :: db where
  "exampleDb = \<lparr> FormulaGroups = [ownedGroup, sharedGroup],
      Formulas = [ownedFormula, sharedFormula, freeFormula],
      FormulaExamples = [], UserFormulaState = [] \<rparr>"

definition signedIn :: "string \<Rightarrow> actionAPIContext" where
  "signedIn uid = \<lparr> locals = Some \<lparr> user = Some \<lparr> user_id = uid \<rparr> \<rparr> \<rparr>"

definition signedOut :: actionAPIContext where
  "signedOut = \<lparr> locals = Some \<lparr> user = None \<rparr> \<rparr>"

section \<open>Lookups\<close>

text \<open>
  A lookup by \<open>select ... where\<close> followed by \<open>const [row] = ...\<close> finds the first row
  that satisfies the condition, which is what \<open>find\<close> computes.
\<close>

lemma first_row_select_where: "first_row (select_where c rows) = find c rows"
  by (induction rows) (simp_all add: first_row_def select_where_def)

lemma select_where_Nil_iff: "select_where c rows = [] \<longleftrightarrow> find c rows = None"
  by (induction rows) (simp_all add: select_where_def)

lemma select_where_Cons_find: "select_where c rows = r # rest \<Longrightarrow> find c rows = Some r"
  by (induction rows) (auto simp: select_where_def split: if_splits)

lemma getOwnedGroup_find:
  "getOwnedGroup d gid uid =
     (case find (\<lambda>g. g_id g = gid) (FormulaGroups d) of
        None \<Rightarrow> Inl (ActionError NOT_FOUND ''Formula group not found.'')
      | Some grp \<Rightarrow>
          if truthy (g_ownerId grp) \<and> g_ownerId grp \<noteq> Some uid
          then Inl (ActionError FORBIDDEN ''You do not have access to this group.'')
          else Inr grp)"
proof (cases "select_where (\<lambda>g. g_id g = gid) (FormulaGroups d)")
  case Nil
  then show ?thesis using select_where_Nil_iff[THEN iffD1, OF Nil] by (simp add: getOwnedGroup_def)
next
  case (Cons r rest)
  then show ?thesis using select_where_Cons_find[OF Cons] by (simp add: getOwnedGroup_def)
qed

lemma ensureFormulaIsEditable_find:
  "ensureFormulaIsEditable d fid uid =
     (case find (\<lambda>f. f_id f = fid) (Formulas d) of
        None \<Rightarrow> Inl (ActionError NOT_FOUND ''Formula not found.'')
      | Some f \<Rightarrow>
          (case f_groupId f of
             None \<Rightarrow> Inr f
           | Some gid \<Rightarrow> (case getOwnedGroup d gid uid of Inl e \<Rightarrow> Inl e | Inr _ \<Rightarrow> Inr f)))"
proof (cases "select_where (\<lambda>f. f_id f = fid) (Formulas d)")
  case Nil
  then show ?thesis using select_where_Nil_iff[THEN iffD1, OF Nil] by (simp add: ensureFormulaIsEditable_def)
next
  case (Cons r rest)
  then show ?thesis using select_where_Cons_find[OF Cons] by (simp add: ensureFormulaIsEditable_def)
qed

lemma length_update_where: "length (update_where c p rows) = length rows"
  by (simp add: update_where_def)

lemma nth_update_where:
  "i < length rows \<Longrightarrow>
   update_where c p rows ! i = (if c (rows ! i) then p (rows ! i) else rows ! i)"
  by (simp add: update_where_def)

lemma find_Some_select_where:
  "find c rows = Some r \<Longrightarrow> \<exists>rest. select_where c rows = r # rest"
  by (induction rows) (auto simp: select_where_def split: if_splits)

lemma find_update_where:
  "(\<And>r. k (p r) = k r) \<Longrightarrow>
   find (\<lambda>r. k r = x) (update_where c p rows) =
     map_option (\<lambda>r. if c r then p r else r) (find (\<lambda>r. k r = x) rows)"
  by (induction rows) (simp_all add: update_where_def)

lemma first_row_returning: "first_row (returning c p rows) = map_option p (find c rows)"
  by (induction rows) (simp_all add: first_row_def returning_def)

lemma nextId_fresh: "x \<in> set ids \<Longrightarrow> x < nextId ids"
  by (induction ids) (auto simp: nextId_def)

text \<open>
  The row a successful ownership check returns has the key that was asked for, so a write
  of that key into a referencing column meets its foreign-key constraint.
\<close>

lemma getOwnedGroup_Inr_key:
  "getOwnedGroup d gid uid = Inr grp \<Longrightarrow> gid \<in> set (map g_id (FormulaGroups d))"
  by (auto simp: getOwnedGroup_find find_Some_iff split: option.splits if_splits)

lemma ensureFormulaIsEditable_Inr_key:
  "ensureFormulaIsEditable d fid uid = Inr fm \<Longrightarrow> fid \<in> set (map f_id (Formulas d))"
  by (auto simp: ensureFormulaIsEditable_find find_Some_iff split: option.splits sum.splits)

lemmas example_defs = exampleDb_def ownedGroup_def sharedGroup_def ownedFormula_def
  sharedFormula_def freeFormula_def signedIn_def signedOut_def

lemmas eval_defs = requireUser_def getOwnedGroup_def ensureFormulaIsEditable_def
  select_where_def update_where_def returning_def first_row_def truthy_def orElse_def
  provided_def providedOpt_def Let_def nextId_def

section \<open>C1: the ownership chain\<close>

text \<open>
  Claim C1, as amended. \<open>getOwnedGroup\<close> fails with NOT_FOUND when no group has the id;
  it fails with FORBIDDEN when the group found has an owner that is set, is not the empty
  string and differs from \<open>userId\<close>; otherwise (owner NULL, owner the empty string, or
  owner equal to \<open>userId\<close>) it returns the group. \<open>ensureFormulaIsEditable\<close> fails with
  NOT_FOUND when no formula has the id; when the formula found has a \<open>groupId\<close> it runs
  \<open>getOwnedGroup\<close> on it, passes its error on and returns the formula when it succeeds;
  when the formula has no \<open>groupId\<close> it returns the formula.
\<close>

theorem ownership_chain:
  "((\<forall>g \<in> set (FormulaGroups d). g_id g \<noteq> gid) \<longrightarrow>
      getOwnedGroup d gid uid = Inl (ActionError NOT_FOUND ''Formula group not found.''))
   \<and> (find (\<lambda>g. g_id g = gid) (FormulaGroups d) = Some grp \<and> g_ownerId grp = Some ow
        \<and> ow \<noteq> [] \<and> ow \<noteq> uid \<longrightarrow>
      getOwnedGroup d gid uid = Inl (ActionError FORBIDDEN ''You do not have access to this group.''))
   \<and> (find (\<lambda>g. g_id g = gid) (FormulaGroups d) = Some grp
        \<and> (g_ownerId grp = None \<or> g_ownerId grp = Some [] \<or> g_ownerId grp = Some uid) \<longrightarrow>
      getOwnedGroup d gid uid = Inr grp)
   \<and> ((\<forall>f \<in> set (Formulas d). f_id f \<noteq> fid) \<longrightarrow>
      ensureFormulaIsEditable d fid uid = Inl (ActionError NOT_FOUND ''Formula not found.''))
   \<and> (find (\<lambda>f. f_id f = fid) (Formulas d) = Some fm \<and> f_groupId fm = Some fg \<longrightarrow>
      ensureFormulaIsEditable d fid uid =
        (case getOwnedGroup d fg uid of Inl e \<Rightarrow> Inl e | Inr _ \<Rightarrow> Inr fm))
   \<and> (find (\<lambda>f. f_id f = fid) (Formulas d) = Some fm \<and> f_groupId fm = None \<longrightarrow>
      ensureFormulaIsEditable d fid uid = Inr fm)"
proof -
  have nf: "(\<forall>g \<in> set (FormulaGroups d). g_id g \<noteq> gid) \<Longrightarrow> find (\<lambda>g. g_id g = gid) (FormulaGroups d) = None"
    by (simp add: find_None_iff)
  have nf2: "(\<forall>f \<in> set (Formulas d). f_id f \<noteq> fid) \<Longrightarrow> find (\<lambda>f. f_id f = fid) (Formulas d) = None"
    by (simp add: find_None_iff)
  show ?thesis
    by (auto simp: getOwnedGroup_find ensureFormulaIsEditable_find truthy_def nf nf2 split: option.splits)
qed


theorem ownership_chain_witness:
  "getOwnedGroup exampleDb 7 ''u2'' = Inl (ActionError NOT_FOUND ''Formula group not found.'')
   \<and> getOwnedGroup exampleDb 1 ''u2'' = Inl (ActionError FORBIDDEN ''You do not have access to this group.'')
   \<and> getOwnedGroup exampleDb 1 ''u1'' = Inr ownedGroup
   \<and> getOwnedGroup exampleDb 2 ''u2'' = Inr sharedGroup
   \<and> ensureFormulaIsEditable exampleDb 9 ''u2'' = Inl (ActionError NOT_FOUND ''Formula not found.'')
   \<and> ensureFormulaIsEditable exampleDb 1 ''u2'' = Inl (ActionError FORBIDDEN ''You do not have access to this group.'')
   \<and> ensureFormulaIsEditable exampleDb 2 ''u2'' = Inr sharedFormula
   \<and> ensureFormulaIsEditable exampleDb 3 ''u1'' = Inr freeFormula"
  using ownership_chain [of exampleDb 7 "''u2''" ownedGroup "''u1''" 9 freeFormula 1]
    ownership_chain [of exampleDb 1 "''u2''" ownedGroup "''u1''" 1 ownedFormula 1]
    ownership_chain [of exampleDb 1 "''u1''" ownedGroup "''u1''" 3 freeFormula 1]
    ownership_chain [of exampleDb 2 "''u2''" sharedGroup "''u1''" 2 sharedFormula 2]
  by (simp add: example_defs)

text \<open>
  Claim C1 as it is written asks for FORBIDDEN whenever the owner is non-null and differs
  from \<open>userId\<close>. The test \<open>group.ownerId && ...\<close> takes the empty string for an
  absent owner: a group whose owner is the empty string is returned to the caller
  \<open>u2\<close>.
\<close>

theorem forbidden_for_nonnull_owner_counterexample:
  "g_ownerId \<lparr> g_id = 1, g_ownerId = Some '''', g_name = ''Kinematics'',
      g_subject = None, g_tags = None, g_description = None, g_slug = None,
      g_isActive = True, g_createdAt = 10, g_updatedAt = 10 \<rparr> \<noteq> None
   \<and> g_ownerId \<lparr> g_id = 1, g_ownerId = Some '''', g_name = ''Kinematics'',
      g_subject = None, g_tags = None, g_description = None, g_slug = None,
      g_isActive = True, g_createdAt = 10, g_updatedAt = 10 \<rparr> \<noteq> Some ''u2''
   \<and> getOwnedGroup
        \<lparr> FormulaGroups = [\<lparr> g_id = 1, g_ownerId = Some '''', g_name = ''Kinematics'',
            g_subject = None, g_tags = None, g_description = None, g_slug = None,
            g_isActive = True, g_createdAt = 10, g_updatedAt = 10 \<rparr>],
          Formulas = [], FormulaExamples = [], UserFormulaState = [] \<rparr> 1 ''u2''
       = Inr \<lparr> g_id = 1, g_ownerId = Some '''', g_name = ''Kinematics'',
            g_subject = None, g_tags = None, g_description = None, g_slug = None,
            g_isActive = True, g_createdAt = 10, g_updatedAt = 10 \<rparr>"
  by (simp add: getOwnedGroup_def select_where_def truthy_def)

section \<open>C2: moving a formula into another group\<close>

text \<open>
  Claim C2, as amended. For a signed-in caller and an \<open>updateFormula\<close> input that
  supplies a \<open>groupId\<close>: the editability check on the formula as it is stored comes
  first, and its error (NOT_FOUND or FORBIDDEN) is the error of the call; when it passes,
  the ownership check on the destination group comes next, and its error is the error of
  the call. So when the owner of the destination group is set, is not the empty string
  and is not the caller, the call fails and the database after the call is the database
  before it; the error is FORBIDDEN when the first check has passed. When both checks
  pass, the call succeeds.
\<close>

theorem updateFormula_check_order:
  assumes auth: "requireUser ctx = Inr u"
    and dest: "uf_groupId input = Some dest"
  shows "(ensureFormulaIsEditable d (uf_id input) (user_id u) = Inl ea \<longrightarrow>
            updateFormula input ctx now d = (Inl ea, d))
       \<and> (ensureFormulaIsEditable d (uf_id input) (user_id u) = Inr fm
            \<and> getOwnedGroup d dest (user_id u) = Inl eb \<longrightarrow>
            updateFormula input ctx now d = (Inl eb, d))
       \<and> (find (\<lambda>g. g_id g = dest) (FormulaGroups d) = Some grp \<and> g_ownerId grp = Some ow
            \<and> ow \<noteq> [] \<and> ow \<noteq> user_id u \<longrightarrow>
            (\<exists>e. updateFormula input ctx now d = (Inl e, d))
            \<and> (ensureFormulaIsEditable d (uf_id input) (user_id u) = Inr fm \<longrightarrow>
                 updateFormula input ctx now d =
                   (Inl (ActionError FORBIDDEN ''You do not have access to this group.''), d)))
       \<and> (ensureFormulaIsEditable d (uf_id input) (user_id u) = Inr fm
            \<and> getOwnedGroup d dest (user_id u) = Inr grp \<longrightarrow>
            (\<exists>r. fst (updateFormula input ctx now d) = Inr r))"
proof -
  have forb: "getOwnedGroup d dest (user_id u) =
                Inl (ActionError FORBIDDEN ''You do not have access to this group.'')"
    if "find (\<lambda>g. g_id g = dest) (FormulaGroups d) = Some grp" "g_ownerId grp = Some ow"
       "ow \<noteq> []" "ow \<noteq> user_id u"
    using that by (simp add: getOwnedGroup_find truthy_def)
  have early: "updateFormula input ctx now d = (Inl e, d)"
    if "ensureFormulaIsEditable d (uf_id input) (user_id u) = Inl e" for e
    using that auth by (simp add: updateFormula_def)
  have late: "updateFormula input ctx now d = (Inl e, d)"
    if "ensureFormulaIsEditable d (uf_id input) (user_id u) = Inr f"
       "getOwnedGroup d dest (user_id u) = Inl e" for e f
    using that auth dest by (simp add: updateFormula_def)
  have ok: "\<exists>r. fst (updateFormula input ctx now d) = Inr r"
    if "ensureFormulaIsEditable d (uf_id input) (user_id u) = Inr f"
       "getOwnedGroup d dest (user_id u) = Inr g" for f g
    using that auth dest by (simp add: updateFormula_def Let_def)
  have fails: "\<exists>e. updateFormula input ctx now d = (Inl e, d)"
    if "getOwnedGroup d dest (user_id u) = Inl e" for e
  proof (cases "ensureFormulaIsEditable d (uf_id input) (user_id u)")
    case (Inl a)
    then show ?thesis using early by blast
  next
    case (Inr b)
    then show ?thesis using late that by blast
  qed
  show ?thesis
    using early late ok forb fails by blast
qed

text \<open>
  On the example database, the caller \<open>u2\<close> moves the formula outside every group into
  the group of \<open>u1\<close> (the destination check fails), moves a formula of the group of
  \<open>u1\<close> into the shared group (the check on the current group fails first), and moves a
  formula that does not exist (NOT_FOUND comes before the destination check).
\<close>

theorem updateFormula_check_order_witness:
  "updateFormula \<lparr> uf_id = 3, uf_groupId = Some 1, uf_name = Some ''Ohm law'', uf_expression = None,
        uf_description = None, uf_variables = None, uf_meta = None, uf_difficulty = None,
        uf_isActive = None \<rparr> (signedIn ''u2'') 20 exampleDb
     = (Inl (ActionError FORBIDDEN ''You do not have access to this group.''), exampleDb)
   \<and> updateFormula \<lparr> uf_id = 1, uf_groupId = Some 2, uf_name = None, uf_expression = None,
        uf_description = None, uf_variables = None, uf_meta = None, uf_difficulty = None,
        uf_isActive = None \<rparr> (signedIn ''u2'') 20 exampleDb
     = (Inl (ActionError FORBIDDEN ''You do not have access to this group.''), exampleDb)
   \<and> updateFormula \<lparr> uf_id = 9, uf_groupId = Some 1, uf_name = None, uf_expression = None,
        uf_description = None, uf_variables = None, uf_meta = None, uf_difficulty = None,
        uf_isActive = None \<rparr> (signedIn ''u2'') 20 exampleDb
     = (Inl (ActionError NOT_FOUND ''Formula not found.''), exampleDb)"
proof -
  let ?in3 = "\<lparr> uf_id = 9, uf_groupId = Some 1, uf_name = None, uf_expression = None,
        uf_description = None, uf_variables = None, uf_meta = None, uf_difficulty = None,
        uf_isActive = None \<rparr>"
  have e9: "ensureFormulaIsEditable exampleDb 9 ''u2''
              = Inl (ActionError NOT_FOUND ''Formula not found.'')"
    by (simp add: ensureFormulaIsEditable_find example_defs)
  let ?in1 = "\<lparr> uf_id = 3, uf_groupId = Some 1, uf_name = Some ''Ohm law'', uf_expression = None,
        uf_description = None, uf_variables = None, uf_meta = None, uf_difficulty = None,
        uf_isActive = None \<rparr>"
  let ?in2 = "\<lparr> uf_id = 1, uf_groupId = Some 2, uf_name = None, uf_expression = None,
        uf_description = None, uf_variables = None, uf_meta = None, uf_difficulty = None,
        uf_isActive = None \<rparr>"
  have auth: "requireUser (signedIn ''u2'') = Inr \<lparr> user_id = ''u2'' \<rparr>"
    by (simp add: requireUser_def signedIn_def)
  have e3: "ensureFormulaIsEditable exampleDb 3 ''u2'' = Inr freeFormula"
    by (simp add: ensureFormulaIsEditable_find example_defs)
  have e1: "ensureFormulaIsEditable exampleDb 1 ''u2''
              = Inl (ActionError FORBIDDEN ''You do not have access to this group.'')"
    by (simp add: ensureFormulaIsEditable_find getOwnedGroup_find truthy_def example_defs)
  have f1: "find (\<lambda>g. g_id g = 1) (FormulaGroups exampleDb) = Some ownedGroup"
    by (simp add: example_defs)
  have o1: "g_ownerId ownedGroup = Some ''u1''" by (simp add: example_defs)
  from updateFormula_check_order [OF auth, where input = ?in1 and dest = 1 and d = exampleDb
      and fm = freeFormula and grp = ownedGroup and ow = "''u1''" and now = 20]
    e3 f1 o1
  have a: "updateFormula ?in1 (signedIn ''u2'') 20 exampleDb
     = (Inl (ActionError FORBIDDEN ''You do not have access to this group.''), exampleDb)"
    by simp
  from updateFormula_check_order [OF auth, where input = ?in2 and dest = 2 and d = exampleDb
      and ea = "ActionError FORBIDDEN ''You do not have access to this group.''" and now = 20]
    e1
  have b: "updateFormula ?in2 (signedIn ''u2'') 20 exampleDb
     = (Inl (ActionError FORBIDDEN ''You do not have access to this group.''), exampleDb)"
    by simp
  from updateFormula_check_order [OF auth, where input = ?in3 and dest = 1 and d = exampleDb
      and ea = "ActionError NOT_FOUND ''Formula not found.''" and now = 20]
    e9
  have c: "updateFormula ?in3 (signedIn ''u2'') 20 exampleDb
     = (Inl (ActionError NOT_FOUND ''Formula not found.''), exampleDb)"
    by simp
  from a b c show ?thesis by simp
qed

text \<open>
  Claim C2 as it is written promises FORBIDDEN, and no write, whenever the caller does not
  own the destination group. A destination group whose owner is the empty string is not
  owned by the caller \<open>u1\<close>, and the move is written: the formula row gets the new
  \<open>groupId\<close>. And when the formula to move does not exist, the call fails with NOT_FOUND
  from the first check, not with FORBIDDEN, though the destination group belongs to
  \<open>u2\<close>.
\<close>

theorem updateFormula_destination_counterexample:
  "g_ownerId \<lparr> g_id = 1, g_ownerId = Some '''', g_name = ''Kinematics'',
      g_subject = None, g_tags = None, g_description = None, g_slug = None,
      g_isActive = True, g_createdAt = 10, g_updatedAt = 10 \<rparr> \<noteq> Some ''u1''
   \<and> updateFormula
        \<lparr> uf_id = 1, uf_groupId = Some 1, uf_name = None, uf_expression = None,
          uf_description = None, uf_variables = None, uf_meta = None, uf_difficulty = None,
          uf_isActive = None \<rparr>
        \<lparr> locals = Some \<lparr> user = Some \<lparr> user_id = ''u1'' \<rparr> \<rparr> \<rparr>
        20
        \<lparr> FormulaGroups = [\<lparr> g_id = 1, g_ownerId = Some '''', g_name = ''Kinematics'',
            g_subject = None, g_tags = None, g_description = None, g_slug = None,
            g_isActive = True, g_createdAt = 10, g_updatedAt = 10 \<rparr>],
          Formulas = [\<lparr> f_id = 1, f_groupId = None, f_name = ''Ohm'', f_expression = ''V=IR'',
            f_description = None, f_variables = None, f_meta = None, f_difficulty = Basic,
            f_isActive = True, f_createdAt = 14, f_updatedAt = 14 \<rparr>],
          FormulaExamples = [], UserFormulaState = [] \<rparr>
     = (Inr \<lparr> success = True,
              data = Some (FormulaData (Some \<lparr> f_id = 1, f_groupId = Some 1, f_name = ''Ohm'',
                f_expression = ''V=IR'', f_description = None, f_variables = None,
                f_meta = None, f_difficulty = Basic, f_isActive = True, f_createdAt = 14,
                f_updatedAt = 20 \<rparr>)) \<rparr>,
        \<lparr> FormulaGroups = [\<lparr> g_id = 1, g_ownerId = Some '''', g_name = ''Kinematics'',
            g_subject = None, g_tags = None, g_description = None, g_slug = None,
            g_isActive = True, g_createdAt = 10, g_updatedAt = 10 \<rparr>],
          Formulas = [\<lparr> f_id = 1, f_groupId = Some 1, f_name = ''Ohm'', f_expression = ''V=IR'',
            f_description = None, f_variables = None, f_meta = None, f_difficulty = Basic,
            f_isActive = True, f_createdAt = 14, f_updatedAt = 20 \<rparr>],
          FormulaExamples = [], UserFormulaState = [] \<rparr>)
   \<and> updateFormula
        \<lparr> uf_id = 9, uf_groupId = Some 1, uf_name = None, uf_expression = None,
          uf_description = None, uf_variables = None, uf_meta = None, uf_difficulty = None,
          uf_isActive = None \<rparr>
        \<lparr> locals = Some \<lparr> user = Some \<lparr> user_id = ''u1'' \<rparr> \<rparr> \<rparr>
        20
        \<lparr> FormulaGroups = [\<lparr> g_id = 1, g_ownerId = Some ''u2'', g_name = ''Kinematics'',
            g_subject = None, g_tags = None, g_description = None, g_slug = None,
            g_isActive = True, g_createdAt = 10, g_updatedAt = 10 \<rparr>],
          Formulas = [], FormulaExamples = [], UserFormulaState = [] \<rparr>
     = (Inl (ActionError NOT_FOUND ''Formula not found.''),
        \<lparr> FormulaGroups = [\<lparr> g_id = 1, g_ownerId = Some ''u2'', g_name = ''Kinematics'',
            g_subject = None, g_tags = None, g_description = None, g_slug = None,
            g_isActive = True, g_createdAt = 10, g_updatedAt = 10 \<rparr>],
          Formulas = [], FormulaExamples = [], UserFormulaState = [] \<rparr>)"
  by (simp add: updateFormula_def formulaPatch_def eval_defs)

section \<open>C3: partial updates\<close>

lemma updateFormulaGroup_Inr:
  "updateFormulaGroup input ctx now d = (Inr r, d') \<Longrightarrow>
   d' = d\<lparr> FormulaGroups :=
            update_where (\<lambda>g. g_id g = ug_id input) (groupPatch input now) (FormulaGroups d) \<rparr>"
  by (auto simp: updateFormulaGroup_def Let_def split: sum.splits)

lemma updateFormula_Inr:
  "updateFormula input ctx now d = (Inr r, d') \<Longrightarrow>
   d' = d\<lparr> Formulas :=
            update_where (\<lambda>f. f_id f = uf_id input) (formulaPatch input now) (Formulas d) \<rparr>"
  by (auto simp: updateFormula_def Let_def split: sum.splits)

lemma groupPatch_fields:
  "g_id (groupPatch input now g) = g_id g"
  "g_ownerId (groupPatch input now g) = g_ownerId g"
  "g_createdAt (groupPatch input now g) = g_createdAt g"
  "g_name (groupPatch input now g) = (case ug_name input of None \<Rightarrow> g_name g | Some v \<Rightarrow> v)"
  "g_subject (groupPatch input now g) =
     (case ug_subject input of None \<Rightarrow> g_subject g | Some v \<Rightarrow> Some v)"
  "g_tags (groupPatch input now g) = (case ug_tags input of None \<Rightarrow> g_tags g | Some v \<Rightarrow> Some v)"
  "g_description (groupPatch input now g) =
     (case ug_description input of None \<Rightarrow> g_description g | Some v \<Rightarrow> Some v)"
  "g_slug (groupPatch input now g) = (case ug_slug input of None \<Rightarrow> g_slug g | Some v \<Rightarrow> Some v)"
  "g_isActive (groupPatch input now g) =
     (case ug_isActive input of None \<Rightarrow> g_isActive g | Some v \<Rightarrow> v)"
  "g_updatedAt (groupPatch input now g) = now"
  by (simp_all add: groupPatch_def provided_def providedOpt_def)

lemma formulaPatch_fields:
  "f_id (formulaPatch input now f) = f_id f"
  "f_createdAt (formulaPatch input now f) = f_createdAt f"
  "f_groupId (formulaPatch input now f) =
     (case uf_groupId input of None \<Rightarrow> f_groupId f | Some v \<Rightarrow> Some v)"
  "f_name (formulaPatch input now f) = (case uf_name input of None \<Rightarrow> f_name f | Some v \<Rightarrow> v)"
  "f_expression (formulaPatch input now f) =
     (case uf_expression input of None \<Rightarrow> f_expression f | Some v \<Rightarrow> v)"
  "f_description (formulaPatch input now f) =
     (case uf_description input of None \<Rightarrow> f_description f | Some v \<Rightarrow> Some v)"
  "f_variables (formulaPatch input now f) =
     (case uf_variables input of None \<Rightarrow> f_variables f | Some v \<Rightarrow> Some v)"
  "f_meta (formulaPatch input now f) = (case uf_meta input of None \<Rightarrow> f_meta f | Some v \<Rightarrow> Some v)"
  "f_difficulty (formulaPatch input now f) =
     (case uf_difficulty input of None \<Rightarrow> f_difficulty f | Some v \<Rightarrow> v)"
  "f_isActive (formulaPatch input now f) =
     (case uf_isActive input of None \<Rightarrow> f_isActive f | Some v \<Rightarrow> v)"
  "f_updatedAt (formulaPatch input now f) = now"
  by (simp_all add: formulaPatch_def provided_def providedOpt_def)

text \<open>
  Claim C3. After a successful \<open>updateFormulaGroup\<close>: the other three tables are as they
  were, the group table has the same number of rows, every row with another id is as it
  was, and in a row with the id of the input the id, the owner and the creation date are
  as they were, each of name, subject, tags, description, slug and isActive has the
  supplied value when the input supplies one and its prior value otherwise, and
  \<open>updatedAt\<close> is the time of the call. The same holds after a successful
  \<open>updateFormula\<close>, for the formula table and the fields groupId, name, expression,
  description, variables, meta, difficulty and isActive.
\<close>

theorem partial_update_frame:
  "(updateFormulaGroup gi ctx now d = (Inr r, d') \<longrightarrow>
      Formulas d' = Formulas d \<and> FormulaExamples d' = FormulaExamples d
      \<and> UserFormulaState d' = UserFormulaState d
      \<and> length (FormulaGroups d') = length (FormulaGroups d)
      \<and> (\<forall>i g g'. i < length (FormulaGroups d) \<and> FormulaGroups d ! i = g
             \<and> FormulaGroups d' ! i = g' \<longrightarrow>
           (g_id g \<noteq> ug_id gi \<longrightarrow> g' = g)
           \<and> (g_id g = ug_id gi \<longrightarrow>
                g_id g' = g_id g \<and> g_ownerId g' = g_ownerId g \<and> g_createdAt g' = g_createdAt g
                \<and> g_name g' = (case ug_name gi of None \<Rightarrow> g_name g | Some v \<Rightarrow> v)
                \<and> g_subject g' = (case ug_subject gi of None \<Rightarrow> g_subject g | Some v \<Rightarrow> Some v)
                \<and> g_tags g' = (case ug_tags gi of None \<Rightarrow> g_tags g | Some v \<Rightarrow> Some v)
                \<and> g_description g' =
                    (case ug_description gi of None \<Rightarrow> g_description g | Some v \<Rightarrow> Some v)
                \<and> g_slug g' = (case ug_slug gi of None \<Rightarrow> g_slug g | Some v \<Rightarrow> Some v)
                \<and> g_isActive g' = (case ug_isActive gi of None \<Rightarrow> g_isActive g | Some v \<Rightarrow> v)
                \<and> g_updatedAt g' = now)))
   \<and> (updateFormula fi ctx now d = (Inr r, d') \<longrightarrow>
      FormulaGroups d' = FormulaGroups d \<and> FormulaExamples d' = FormulaExamples d
      \<and> UserFormulaState d' = UserFormulaState d
      \<and> length (Formulas d') = length (Formulas d)
      \<and> (\<forall>i f f'. i < length (Formulas d) \<and> Formulas d ! i = f \<and> Formulas d' ! i = f' \<longrightarrow>
           (f_id f \<noteq> uf_id fi \<longrightarrow> f' = f)
           \<and> (f_id f = uf_id fi \<longrightarrow>
                f_id f' = f_id f \<and> f_createdAt f' = f_createdAt f
                \<and> f_groupId f' = (case uf_groupId fi of None \<Rightarrow> f_groupId f | Some v \<Rightarrow> Some v)
                \<and> f_name f' = (case uf_name fi of None \<Rightarrow> f_name f | Some v \<Rightarrow> v)
                \<and> f_expression f' =
                    (case uf_expression fi of None \<Rightarrow> f_expression f | Some v \<Rightarrow> v)
                \<and> f_description f' =
                    (case uf_description fi of None \<Rightarrow> f_description f | Some v \<Rightarrow> Some v)
                \<and> f_variables f' =
                    (case uf_variables fi of None \<Rightarrow> f_variables f | Some v \<Rightarrow> Some v)
                \<and> f_meta f' = (case uf_meta fi of None \<Rightarrow> f_meta f | Some v \<Rightarrow> Some v)
                \<and> f_difficulty f' =
                    (case uf_difficulty fi of None \<Rightarrow> f_difficulty f | Some v \<Rightarrow> v)
                \<and> f_isActive f' = (case uf_isActive fi of None \<Rightarrow> f_isActive f | Some v \<Rightarrow> v)
                \<and> f_updatedAt f' = now)))"
proof (intro conjI impI)
  assume "updateFormulaGroup gi ctx now d = (Inr r, d')"
  then have d': "d' = d\<lparr> FormulaGroups :=
      update_where (\<lambda>g. g_id g = ug_id gi) (groupPatch gi now) (FormulaGroups d) \<rparr>"
    by (rule updateFormulaGroup_Inr)
  show "Formulas d' = Formulas d" "FormulaExamples d' = FormulaExamples d"
    "UserFormulaState d' = UserFormulaState d"
    "length (FormulaGroups d') = length (FormulaGroups d)"
    by (simp_all add: d' length_update_where)
  show "\<forall>i g g'. i < length (FormulaGroups d) \<and> FormulaGroups d ! i = g
             \<and> FormulaGroups d' ! i = g' \<longrightarrow>
           (g_id g \<noteq> ug_id gi \<longrightarrow> g' = g)
           \<and> (g_id g = ug_id gi \<longrightarrow>
                g_id g' = g_id g \<and> g_ownerId g' = g_ownerId g \<and> g_createdAt g' = g_createdAt g
                \<and> g_name g' = (case ug_name gi of None \<Rightarrow> g_name g | Some v \<Rightarrow> v)
                \<and> g_subject g' = (case ug_subject gi of None \<Rightarrow> g_subject g | Some v \<Rightarrow> Some v)
                \<and> g_tags g' = (case ug_tags gi of None \<Rightarrow> g_tags g | Some v \<Rightarrow> Some v)
                \<and> g_description g' =
                    (case ug_description gi of None \<Rightarrow> g_description g | Some v \<Rightarrow> Some v)
                \<and> g_slug g' = (case ug_slug gi of None \<Rightarrow> g_slug g | Some v \<Rightarrow> Some v)
                \<and> g_isActive g' = (case ug_isActive gi of None \<Rightarrow> g_isActive g | Some v \<Rightarrow> v)
                \<and> g_updatedAt g' = now)"
    by (simp add: d' nth_update_where groupPatch_fields)
next
  assume "updateFormula fi ctx now d = (Inr r, d')"
  then have d': "d' = d\<lparr> Formulas :=
      update_where (\<lambda>f. f_id f = uf_id fi) (formulaPatch fi now) (Formulas d) \<rparr>"
    by (rule updateFormula_Inr)
  show "FormulaGroups d' = FormulaGroups d" "FormulaExamples d' = FormulaExamples d"
    "UserFormulaState d' = UserFormulaState d"
    "length (Formulas d') = length (Formulas d)"
    by (simp_all add: d' length_update_where)
  show "\<forall>i f f'. i < length (Formulas d) \<and> Formulas d ! i = f \<and> Formulas d' ! i = f' \<longrightarrow>
           (f_id f \<noteq> uf_id fi \<longrightarrow> f' = f)
           \<and> (f_id f = uf_id fi \<longrightarrow>
                f_id f' = f_id f \<and> f_createdAt f' = f_createdAt f
                \<and> f_groupId f' = (case uf_groupId fi of None \<Rightarrow> f_groupId f | Some v \<Rightarrow> Some v)
                \<and> f_name f' = (case uf_name fi of None \<Rightarrow> f_name f | Some v \<Rightarrow> v)
                \<and> f_expression f' =
                    (case uf_expression fi of None \<Rightarrow> f_expression f | Some v \<Rightarrow> v)
                \<and> f_description f' =
                    (case uf_description fi of None \<Rightarrow> f_description f | Some v \<Rightarrow> Some v)
                \<and> f_variables f' =
                    (case uf_variables fi of None \<Rightarrow> f_variables f | Some v \<Rightarrow> Some v)
                \<and> f_meta f' = (case uf_meta fi of None \<Rightarrow> f_meta f | Some v \<Rightarrow> Some v)
                \<and> f_difficulty f' =
                    (case uf_difficulty fi of None \<Rightarrow> f_difficulty f | Some v \<Rightarrow> v)
                \<and> f_isActive f' = (case uf_isActive fi of None \<Rightarrow> f_isActive f | Some v \<Rightarrow> v)
                \<and> f_updatedAt f' = now)"
    by (simp add: d' nth_update_where formulaPatch_fields)
qed

text \<open>
  On the example database: the owner updates only the tags of a group, and a caller
  updates the name and the difficulty of the formula outside every group.
\<close>

theorem partial_update_frame_witness:
  "updateFormulaGroup
      \<lparr> ug_id = 1, ug_name = None, ug_subject = None, ug_tags = Some ''motion'',
        ug_description = None, ug_slug = None, ug_isActive = None \<rparr> (signedIn ''u1'') 20 exampleDb
     = (Inr \<lparr> success = True,
              data = Some (GroupData (Some (ownedGroup\<lparr> g_tags := Some ''motion'', g_updatedAt := 20 \<rparr>))) \<rparr>,
        exampleDb\<lparr> FormulaGroups :=
          [ownedGroup\<lparr> g_tags := Some ''motion'', g_updatedAt := 20 \<rparr>, sharedGroup] \<rparr>)
   \<and> g_name (ownedGroup\<lparr> g_tags := Some ''motion'', g_updatedAt := 20 \<rparr>) = g_name ownedGroup
   \<and> g_description (ownedGroup\<lparr> g_tags := Some ''motion'', g_updatedAt := 20 \<rparr>)
       = g_description ownedGroup
   \<and> updateFormula
      \<lparr> uf_id = 3, uf_groupId = None, uf_name = Some ''Ohm law'', uf_expression = None,
        uf_description = None, uf_variables = None, uf_meta = None, uf_difficulty = Some Advanced,
        uf_isActive = None \<rparr> (signedIn ''u2'') 21 exampleDb
     = (Inr \<lparr> success = True,
              data = Some (FormulaData (Some (freeFormula\<lparr> f_name := ''Ohm law'',
                f_difficulty := Advanced, f_updatedAt := 21 \<rparr>))) \<rparr>,
        exampleDb\<lparr> Formulas := [ownedFormula, sharedFormula,
          freeFormula\<lparr> f_name := ''Ohm law'', f_difficulty := Advanced, f_updatedAt := 21 \<rparr>] \<rparr>)
   \<and> f_expression (freeFormula\<lparr> f_name := ''Ohm law'', f_difficulty := Advanced,
         f_updatedAt := 21 \<rparr>) = f_expression freeFormula"
proof -
  let ?gi = "\<lparr> ug_id = 1, ug_name = None, ug_subject = None, ug_tags = Some ''motion'',
        ug_description = None, ug_slug = None, ug_isActive = None \<rparr>"
  let ?g' = "ownedGroup\<lparr> g_tags := Some ''motion'', g_updatedAt := 20 \<rparr>"
  let ?fi = "\<lparr> uf_id = 3, uf_groupId = None, uf_name = Some ''Ohm law'', uf_expression = None,
        uf_description = None, uf_variables = None, uf_meta = None, uf_difficulty = Some Advanced,
        uf_isActive = None \<rparr>"
  let ?f' = "freeFormula\<lparr> f_name := ''Ohm law'', f_difficulty := Advanced, f_updatedAt := 21 \<rparr>"
  have hg: "updateFormulaGroup ?gi (signedIn ''u1'') 20 exampleDb
     = (Inr \<lparr> success = True, data = Some (GroupData (Some ?g')) \<rparr>,
        exampleDb\<lparr> FormulaGroups := [?g', sharedGroup] \<rparr>)"
    by (simp add: updateFormulaGroup_def groupPatch_def eval_defs example_defs)
  have hf: "updateFormula ?fi (signedIn ''u2'') 21 exampleDb
     = (Inr \<lparr> success = True, data = Some (FormulaData (Some ?f')) \<rparr>,
        exampleDb\<lparr> Formulas := [ownedFormula, sharedFormula, ?f'] \<rparr>)"
    by (simp add: updateFormula_def formulaPatch_def eval_defs example_defs)
  from partial_update_frame [THEN conjunct1, rule_format, OF hg]
  have g: "\<forall>i g g'. i < length (FormulaGroups exampleDb) \<and> FormulaGroups exampleDb ! i = g
      \<and> FormulaGroups (exampleDb\<lparr> FormulaGroups := [?g', sharedGroup] \<rparr>) ! i = g' \<longrightarrow>
      (g_id g = ug_id ?gi \<longrightarrow> g_name g' = (case ug_name ?gi of None \<Rightarrow> g_name g | Some v \<Rightarrow> v)
         \<and> g_description g' =
             (case ug_description ?gi of None \<Rightarrow> g_description g | Some v \<Rightarrow> Some v))"
    by blast
  from g [rule_format, of 0 ownedGroup ?g']
  have g0: "g_name ?g' = g_name ownedGroup \<and> g_description ?g' = g_description ownedGroup"
    by (simp add: example_defs)
  from partial_update_frame [THEN conjunct2, rule_format, OF hf]
  have f: "\<forall>i f f'. i < length (Formulas exampleDb) \<and> Formulas exampleDb ! i = f
      \<and> Formulas (exampleDb\<lparr> Formulas := [ownedFormula, sharedFormula, ?f'] \<rparr>) ! i = f' \<longrightarrow>
      (f_id f = uf_id ?fi \<longrightarrow>
         f_expression f' = (case uf_expression ?fi of None \<Rightarrow> f_expression f | Some v \<Rightarrow> v))"
    by blast
  from f [rule_format, of 2 freeFormula ?f']
  have f2: "f_expression ?f' = f_expression freeFormula"
    by (simp add: example_defs)
  from hg hf g0 f2 show ?thesis by simp
qed

section \<open>C4: upserting the state of a user on a formula\<close>

lemma update_where_no_match: "\<forall>r \<in> set rows. \<not> c r \<Longrightarrow> update_where c p rows = rows"
  by (induction rows) (simp_all add: update_where_def)

lemma select_where_no_match: "\<forall>r \<in> set rows. \<not> c r \<Longrightarrow> select_where c rows = []"
  by (induction rows) (simp_all add: select_where_def)

lemma returning_no_match: "\<forall>r \<in> set rows. \<not> c r \<Longrightarrow> returning c p rows = []"
  by (induction rows) (simp_all add: returning_def)

lemma statePatch_fields:
  "statePatch input now s =
     s\<lparr> s_isFavorite := (case us_isFavorite input of None \<Rightarrow> s_isFavorite s | Some v \<Rightarrow> v),
        s_note := (case us_note input of None \<Rightarrow> s_note s | Some v \<Rightarrow> Some v),
        s_familiarity := (case us_familiarity input of None \<Rightarrow> s_familiarity s | Some v \<Rightarrow> v),
        s_updatedAt := now \<rparr>"
  by (simp add: statePatch_def provided_def providedOpt_def)

lemma upsert_refused:
  assumes auth: "requireUser ctx = Inr u"
    and none: "\<forall>s \<in> set (UserFormulaState d).
                 \<not> (s_formulaId s = us_formulaId input \<and> s_userId s = user_id u)"
    and absent: "us_formulaId input \<notin> set (map f_id (Formulas d))"
  shows "upsertUserFormulaState input ctx now d =
           (Inl (LibsqlError ''SQLITE_CONSTRAINT_FOREIGNKEY''), d)"
  using auth select_where_no_match [OF none] absent
  by (simp add: upsertUserFormulaState_def)

lemma upsert_insert:
  assumes auth: "requireUser ctx = Inr u"
    and none: "\<forall>s \<in> set (UserFormulaState d).
                 \<not> (s_formulaId s = us_formulaId input \<and> s_userId s = user_id u)"
    and present: "us_formulaId input \<in> set (map f_id (Formulas d))"
  shows "upsertUserFormulaState input ctx now d =
    (Inr \<lparr> success = True,
           data = Some (StateData (Some
             \<lparr> s_id = nextId (map s_id (UserFormulaState d)), s_userId = user_id u,
               s_formulaId = us_formulaId input,
               s_isFavorite = orElse (us_isFavorite input) False, s_note = us_note input,
               s_familiarity = orElse (us_familiarity input) New,
               s_createdAt = now, s_updatedAt = now \<rparr>)) \<rparr>,
     d\<lparr> UserFormulaState := UserFormulaState d @
       [\<lparr> s_id = nextId (map s_id (UserFormulaState d)), s_userId = user_id u,
          s_formulaId = us_formulaId input,
          s_isFavorite = orElse (us_isFavorite input) False, s_note = us_note input,
          s_familiarity = orElse (us_familiarity input) New,
          s_createdAt = now, s_updatedAt = now \<rparr>] \<rparr>)"
  using auth select_where_no_match [OF none] present
  by (simp add: upsertUserFormulaState_def Let_def)

lemma upsert_found:
  assumes auth: "requireUser ctx = Inr u"
    and found: "find (\<lambda>s. s_formulaId s = us_formulaId input \<and> s_userId s = user_id u)
                  (UserFormulaState d) = Some ex"
  shows "upsertUserFormulaState input ctx now d =
    (Inr \<lparr> success = True,
           data = Some (StateData (map_option (statePatch input now)
                    (find (\<lambda>s. s_id s = s_id ex) (UserFormulaState d)))) \<rparr>,
     d\<lparr> UserFormulaState :=
          update_where (\<lambda>s. s_id s = s_id ex) (statePatch input now) (UserFormulaState d) \<rparr>)"
proof -
  from find_Some_select_where [OF found] obtain rest where
    "select_where (\<lambda>s. s_formulaId s = us_formulaId input \<and> s_userId s = user_id u)
       (UserFormulaState d) = ex # rest" ..
  then show ?thesis
    using auth by (simp add: upsertUserFormulaState_def Let_def first_row_returning)
qed

lemma upsert_update:
  assumes auth: "requireUser ctx = Inr u"
    and none: "\<forall>s \<in> set rows. \<not> (s_formulaId s = us_formulaId input \<and> s_userId s = user_id u)"
    and fresh: "\<forall>s \<in> set rows. s_id s \<noteq> s_id row"
    and mine: "s_formulaId row = us_formulaId input" "s_userId row = user_id u"
    and tab: "UserFormulaState d = rows @ [row]"
  shows "upsertUserFormulaState input ctx now d =
    (Inr \<lparr> success = True, data = Some (StateData (Some (statePatch input now row))) \<rparr>,
     d\<lparr> UserFormulaState := rows @ [statePatch input now row] \<rparr>)"
proof -
  have sel: "select_where (\<lambda>s. s_formulaId s = us_formulaId input \<and> s_userId s = user_id u)
               (rows @ [row]) = [row]"
    using select_where_no_match [OF none] mine by (simp add: select_where_def)
  have upd: "update_where (\<lambda>s. s_id s = s_id row) (statePatch input now) (rows @ [row])
               = rows @ [statePatch input now row]"
    using update_where_no_match [OF fresh, of "statePatch input now"]
    by (simp add: update_where_def)
  have ret: "returning (\<lambda>s. s_id s = s_id row) (statePatch input now) (rows @ [row])
               = [statePatch input now row]"
    using returning_no_match [OF fresh, of "statePatch input now"]
    by (simp add: returning_def)
  show ?thesis
    using auth by (simp add: upsertUserFormulaState_def sel Let_def tab upd ret first_row_def)
qed

text \<open>
  Claim C4, as amended, for a signed-in caller.

  When the caller has no state row for the formula and a formula with that id exists,
  running \<open>upsertUserFormulaState\<close> twice with the same input, at the times \<open>now\<close> and
  \<open>now'\<close>, succeeds both times: the first call inserts a row, the second returns that row
  with \<open>updatedAt\<close> moved to \<open>now'\<close>. Afterwards the state table is the old table
  followed by that one row, which is the only row of the caller for the formula: its
  \<open>isFavorite\<close>, \<open>note\<close> and \<open>familiarity\<close> are the supplied values, and false, NULL and
  \<open>new\<close> for the fields the input leaves out; it was created at \<open>now\<close>. The other tables
  are as they were.

  When the caller has a state row for the formula, whatever it holds, a call inserts
  nothing: in every row with the id of the first such row each of \<open>isFavorite\<close>, \<open>note\<close>
  and \<open>familiarity\<close> takes the supplied value when the input supplies one and keeps its
  own otherwise, \<open>updatedAt\<close> becomes the time of the call, and nothing else changes; the
  patched row is returned.

  When the caller has no state row for the formula and no formula has that id, the
  foreign key of \<open>formulaId\<close> refuses the insert: the call throws and nothing is written.
\<close>

theorem upsert_twice_one_row:
  assumes auth: "requireUser ctx = Inr u"
  shows
   "((\<forall>s \<in> set (UserFormulaState d).
        \<not> (s_formulaId s = us_formulaId input \<and> s_userId s = user_id u))
     \<and> us_formulaId input \<in> set (map f_id (Formulas d)) \<longrightarrow>
     (\<exists>d1 d2 row.
        upsertUserFormulaState input ctx now d =
          (Inr \<lparr> success = True, data = Some (StateData (Some (row\<lparr> s_updatedAt := now \<rparr>))) \<rparr>, d1)
      \<and> UserFormulaState d1 = UserFormulaState d @ [row\<lparr> s_updatedAt := now \<rparr>]
      \<and> upsertUserFormulaState input ctx now' d1 =
          (Inr \<lparr> success = True, data = Some (StateData (Some row)) \<rparr>, d2)
      \<and> UserFormulaState d2 = UserFormulaState d @ [row]
      \<and> filter (\<lambda>s. s_userId s = user_id u \<and> s_formulaId s = us_formulaId input)
            (UserFormulaState d2) = [row]
      \<and> s_userId row = user_id u \<and> s_formulaId row = us_formulaId input
      \<and> s_isFavorite row = (case us_isFavorite input of None \<Rightarrow> False | Some v \<Rightarrow> v)
      \<and> s_note row = us_note input
      \<and> s_familiarity row = (case us_familiarity input of None \<Rightarrow> New | Some v \<Rightarrow> v)
      \<and> s_createdAt row = now \<and> s_updatedAt row = now'
      \<and> FormulaGroups d2 = FormulaGroups d \<and> Formulas d2 = Formulas d
      \<and> FormulaExamples d2 = FormulaExamples d))
  \<and> (find (\<lambda>s. s_formulaId s = us_formulaId input \<and> s_userId s = user_id u)
        (UserFormulaState d) = Some ex \<longrightarrow>
     (\<exists>d' st.
        find (\<lambda>s. s_id s = s_id ex) (UserFormulaState d) = Some st
      \<and> upsertUserFormulaState input ctx now d =
          (Inr \<lparr> success = True,
                 data = Some (StateData (Some
                   (st\<lparr> s_isFavorite :=
                          (case us_isFavorite input of None \<Rightarrow> s_isFavorite st | Some v \<Rightarrow> v),
                        s_note := (case us_note input of None \<Rightarrow> s_note st | Some v \<Rightarrow> Some v),
                        s_familiarity :=
                          (case us_familiarity input of None \<Rightarrow> s_familiarity st | Some v \<Rightarrow> v),
                        s_updatedAt := now \<rparr>))) \<rparr>, d')
      \<and> length (UserFormulaState d') = length (UserFormulaState d)
      \<and> (\<forall>i s. i < length (UserFormulaState d) \<and> UserFormulaState d ! i = s \<longrightarrow>
            UserFormulaState d' ! i =
              (if s_id s = s_id ex
               then s\<lparr> s_isFavorite :=
                          (case us_isFavorite input of None \<Rightarrow> s_isFavorite s | Some v \<Rightarrow> v),
                        s_note := (case us_note input of None \<Rightarrow> s_note s | Some v \<Rightarrow> Some v),
                        s_familiarity :=
                          (case us_familiarity input of None \<Rightarrow> s_familiarity s | Some v \<Rightarrow> v),
                        s_updatedAt := now \<rparr>
               else s))
      \<and> FormulaGroups d' = FormulaGroups d \<and> Formulas d' = Formulas d
      \<and> FormulaExamples d' = FormulaExamples d))
  \<and> ((\<forall>s \<in> set (UserFormulaState d).
        \<not> (s_formulaId s = us_formulaId input \<and> s_userId s = user_id u))
     \<and> us_formulaId input \<notin> set (map f_id (Formulas d)) \<longrightarrow>
     upsertUserFormulaState input ctx now d =
       (Inl (LibsqlError ''SQLITE_CONSTRAINT_FOREIGNKEY''), d))"
proof (intro conjI impI)
  assume h: "(\<forall>s \<in> set (UserFormulaState d).
        \<not> (s_formulaId s = us_formulaId input \<and> s_userId s = user_id u))
     \<and> us_formulaId input \<in> set (map f_id (Formulas d))"
  then have none: "\<forall>s \<in> set (UserFormulaState d).
        \<not> (s_formulaId s = us_formulaId input \<and> s_userId s = user_id u)"
    and present: "us_formulaId input \<in> set (map f_id (Formulas d))" by blast+
  let ?row1 = "\<lparr> s_id = nextId (map s_id (UserFormulaState d)), s_userId = user_id u,
               s_formulaId = us_formulaId input,
               s_isFavorite = orElse (us_isFavorite input) False, s_note = us_note input,
               s_familiarity = orElse (us_familiarity input) New,
               s_createdAt = now, s_updatedAt = now \<rparr>"
  let ?row = "?row1\<lparr> s_updatedAt := now' \<rparr>"
  let ?d1 = "d\<lparr> UserFormulaState := UserFormulaState d @ [?row1] \<rparr>"
  let ?d2 = "?d1\<lparr> UserFormulaState := UserFormulaState d @ [?row] \<rparr>"
  have patch: "statePatch input now' ?row1 = ?row"
    by (simp add: statePatch_def provided_def providedOpt_def orElse_def split: option.splits)
  have fresh: "\<forall>s \<in> set (UserFormulaState d). s_id s \<noteq> s_id ?row1"
    using nextId_fresh [of _ "map s_id (UserFormulaState d)"] by fastforce
  have c1: "upsertUserFormulaState input ctx now d =
        (Inr \<lparr> success = True, data = Some (StateData (Some ?row1)) \<rparr>, ?d1)"
    using auth none present by (rule upsert_insert)
  have c2: "upsertUserFormulaState input ctx now' ?d1 =
        (Inr \<lparr> success = True, data = Some (StateData (Some ?row)) \<rparr>, ?d2)"
    using upsert_update [OF auth none fresh, of ?d1 now'] by (simp add: patch)
  have one: "filter (\<lambda>s. s_userId s = user_id u \<and> s_formulaId s = us_formulaId input)
          (UserFormulaState ?d2) = [?row]"
    using select_where_no_match [OF none] by (simp add: select_where_def conj_commute)
  show "\<exists>d1 d2 row.
        upsertUserFormulaState input ctx now d =
          (Inr \<lparr> success = True, data = Some (StateData (Some (row\<lparr> s_updatedAt := now \<rparr>))) \<rparr>, d1)
      \<and> UserFormulaState d1 = UserFormulaState d @ [row\<lparr> s_updatedAt := now \<rparr>]
      \<and> upsertUserFormulaState input ctx now' d1 =
          (Inr \<lparr> success = True, data = Some (StateData (Some row)) \<rparr>, d2)
      \<and> UserFormulaState d2 = UserFormulaState d @ [row]
      \<and> filter (\<lambda>s. s_userId s = user_id u \<and> s_formulaId s = us_formulaId input)
            (UserFormulaState d2) = [row]
      \<and> s_userId row = user_id u \<and> s_formulaId row = us_formulaId input
      \<and> s_isFavorite row = (case us_isFavorite input of None \<Rightarrow> False | Some v \<Rightarrow> v)
      \<and> s_note row = us_note input
      \<and> s_familiarity row = (case us_familiarity input of None \<Rightarrow> New | Some v \<Rightarrow> v)
      \<and> s_createdAt row = now \<and> s_updatedAt row = now'
      \<and> FormulaGroups d2 = FormulaGroups d \<and> Formulas d2 = Formulas d
      \<and> FormulaExamples d2 = FormulaExamples d"
    apply (rule exI [where x = ?d1])
    apply (rule exI [where x = ?d2])
    apply (rule exI [where x = ?row])
    using c1 c2 one
    apply (intro conjI)
    apply (simp_all add: orElse_def)
    done
next
  assume found: "find (\<lambda>s. s_formulaId s = us_formulaId input \<and> s_userId s = user_id u)
        (UserFormulaState d) = Some ex"
  let ?d' = "d\<lparr> UserFormulaState :=
          update_where (\<lambda>s. s_id s = s_id ex) (statePatch input now) (UserFormulaState d) \<rparr>"
  from found have "ex \<in> set (UserFormulaState d)"
    by (auto simp: find_Some_iff)
  then have "find (\<lambda>s. s_id s = s_id ex) (UserFormulaState d) \<noteq> None"
    by (auto simp: find_None_iff)
  then obtain st where st: "find (\<lambda>s. s_id s = s_id ex) (UserFormulaState d) = Some st"
    by blast
  have res: "upsertUserFormulaState input ctx now d =
      (Inr \<lparr> success = True, data = Some (StateData (Some (statePatch input now st))) \<rparr>, ?d')"
    using upsert_found [OF auth found, of now] by (simp add: st)
  have rows: "\<forall>i s. i < length (UserFormulaState d) \<and> UserFormulaState d ! i = s \<longrightarrow>
      UserFormulaState ?d' ! i = (if s_id s = s_id ex then statePatch input now s else s)"
    by (simp add: nth_update_where)
  show "\<exists>d' st.
        find (\<lambda>s. s_id s = s_id ex) (UserFormulaState d) = Some st
      \<and> upsertUserFormulaState input ctx now d =
          (Inr \<lparr> success = True,
                 data = Some (StateData (Some
                   (st\<lparr> s_isFavorite :=
                          (case us_isFavorite input of None \<Rightarrow> s_isFavorite st | Some v \<Rightarrow> v),
                        s_note := (case us_note input of None \<Rightarrow> s_note st | Some v \<Rightarrow> Some v),
                        s_familiarity :=
                          (case us_familiarity input of None \<Rightarrow> s_familiarity st | Some v \<Rightarrow> v),
                        s_updatedAt := now \<rparr>))) \<rparr>, d')
      \<and> length (UserFormulaState d') = length (UserFormulaState d)
      \<and> (\<forall>i s. i < length (UserFormulaState d) \<and> UserFormulaState d ! i = s \<longrightarrow>
            UserFormulaState d' ! i =
              (if s_id s = s_id ex
               then s\<lparr> s_isFavorite :=
                          (case us_isFavorite input of None \<Rightarrow> s_isFavorite s | Some v \<Rightarrow> v),
                        s_note := (case us_note input of None \<Rightarrow> s_note s | Some v \<Rightarrow> Some v),
                        s_familiarity :=
                          (case us_familiarity input of None \<Rightarrow> s_familiarity s | Some v \<Rightarrow> v),
                        s_updatedAt := now \<rparr>
               else s))
      \<and> FormulaGroups d' = FormulaGroups d \<and> Formulas d' = Formulas d
      \<and> FormulaExamples d' = FormulaExamples d"
    apply (rule exI [where x = ?d'])
    apply (rule exI [where x = st])
    using st res rows
    apply (intro conjI)
    apply (simp_all add: statePatch_fields [symmetric] length_update_where)
    done
next
  assume "(\<forall>s \<in> set (UserFormulaState d).
        \<not> (s_formulaId s = us_formulaId input \<and> s_userId s = user_id u))
     \<and> us_formulaId input \<notin> set (map f_id (Formulas d))"
  then show "upsertUserFormulaState input ctx now d =
       (Inl (LibsqlError ''SQLITE_CONSTRAINT_FOREIGNKEY''), d)"
    using auth upsert_refused by blast
qed

text \<open>
  In a database where \<open>u2\<close> has a state on the formula 3: the caller \<open>u1\<close> marks the
  formula 3 a favourite, twice, at the times 20 and 30, and the table ends with one row of
  \<open>u1\<close>, a favourite, with no note and familiarity \<open>new\<close>; the caller \<open>u2\<close> sets a
  note only, and the row of \<open>u2\<close> keeps its \<open>isFavorite\<close> and its familiarity. On the
  example database, a state for the formula id 99, which no formula has, is refused.
\<close>

theorem upsert_twice_one_row_witness:
  "upsertUserFormulaState
      \<lparr> us_formulaId = 3, us_isFavorite = Some True, us_note = None, us_familiarity = None \<rparr>
      (signedIn ''u1'') 20
      (exampleDb\<lparr> UserFormulaState :=
        [\<lparr> s_id = 5, s_userId = ''u2'', s_formulaId = 3, s_isFavorite = False, s_note = None,
           s_familiarity = Learning, s_createdAt = 16, s_updatedAt = 16 \<rparr>] \<rparr>)
    = (Inr \<lparr> success = True,
             data = Some (StateData (Some
               \<lparr> s_id = 6, s_userId = ''u1'', s_formulaId = 3, s_isFavorite = True,
                 s_note = None, s_familiarity = New, s_createdAt = 20, s_updatedAt = 20 \<rparr>)) \<rparr>,
       exampleDb\<lparr> UserFormulaState :=
        [\<lparr> s_id = 5, s_userId = ''u2'', s_formulaId = 3, s_isFavorite = False, s_note = None,
           s_familiarity = Learning, s_createdAt = 16, s_updatedAt = 16 \<rparr>,
         \<lparr> s_id = 6, s_userId = ''u1'', s_formulaId = 3, s_isFavorite = True, s_note = None,
           s_familiarity = New, s_createdAt = 20, s_updatedAt = 20 \<rparr>] \<rparr>)
   \<and> upsertUserFormulaState
      \<lparr> us_formulaId = 3, us_isFavorite = Some True, us_note = None, us_familiarity = None \<rparr>
      (signedIn ''u1'') 30
      (exampleDb\<lparr> UserFormulaState :=
        [\<lparr> s_id = 5, s_userId = ''u2'', s_formulaId = 3, s_isFavorite = False, s_note = None,
           s_familiarity = Learning, s_createdAt = 16, s_updatedAt = 16 \<rparr>,
         \<lparr> s_id = 6, s_userId = ''u1'', s_formulaId = 3, s_isFavorite = True, s_note = None,
           s_familiarity = New, s_createdAt = 20, s_updatedAt = 20 \<rparr>] \<rparr>)
    = (Inr \<lparr> success = True,
             data = Some (StateData (Some
               \<lparr> s_id = 6, s_userId = ''u1'', s_formulaId = 3, s_isFavorite = True,
                 s_note = None, s_familiarity = New, s_createdAt = 20, s_updatedAt = 30 \<rparr>)) \<rparr>,
       exampleDb\<lparr> UserFormulaState :=
        [\<lparr> s_id = 5, s_userId = ''u2'', s_formulaId = 3, s_isFavorite = False, s_note = None,
           s_familiarity = Learning, s_createdAt = 16, s_updatedAt = 16 \<rparr>,
         \<lparr> s_id = 6, s_userId = ''u1'', s_formulaId = 3, s_isFavorite = True, s_note = None,
           s_familiarity = New, s_createdAt = 20, s_updatedAt = 30 \<rparr>] \<rparr>)
   \<and> fst (upsertUserFormulaState
      \<lparr> us_formulaId = 3, us_isFavorite = None, us_note = Some ''V over I'',
        us_familiarity = None \<rparr>
      (signedIn ''u2'') 40
      (exampleDb\<lparr> UserFormulaState :=
        [\<lparr> s_id = 5, s_userId = ''u2'', s_formulaId = 3, s_isFavorite = False, s_note = None,
           s_familiarity = Learning, s_createdAt = 16, s_updatedAt = 16 \<rparr>] \<rparr>))
    = Inr \<lparr> success = True,
            data = Some (StateData (Some
              \<lparr> s_id = 5, s_userId = ''u2'', s_formulaId = 3, s_isFavorite = False,
                s_note = Some ''V over I'', s_familiarity = Learning, s_createdAt = 16,
                s_updatedAt = 40 \<rparr>)) \<rparr>
   \<and> upsertUserFormulaState
      \<lparr> us_formulaId = 99, us_isFavorite = Some True, us_note = None, us_familiarity = None \<rparr>
      (signedIn ''u1'') 20 exampleDb
    = (Inl (LibsqlError ''SQLITE_CONSTRAINT_FOREIGNKEY''), exampleDb)"
proof -
  let ?i = "\<lparr> us_formulaId = 3, us_isFavorite = Some True, us_note = None,
      us_familiarity = None \<rparr>"
  let ?other = "\<lparr> s_id = 5, s_userId = ''u2'', s_formulaId = 3, s_isFavorite = False,
      s_note = None, s_familiarity = Learning, s_createdAt = 16, s_updatedAt = 16 \<rparr>"
  let ?row1 = "\<lparr> s_id = 6, s_userId = ''u1'', s_formulaId = 3, s_isFavorite = True,
      s_note = None, s_familiarity = New, s_createdAt = 20, s_updatedAt = 20 \<rparr>"
  let ?row2 = "\<lparr> s_id = 6, s_userId = ''u1'', s_formulaId = 3, s_isFavorite = True,
      s_note = None, s_familiarity = New, s_createdAt = 20, s_updatedAt = 30 \<rparr>"
  let ?D = "exampleDb\<lparr> UserFormulaState := [?other] \<rparr>"
  let ?D1 = "exampleDb\<lparr> UserFormulaState := [?other, ?row1] \<rparr>"
  let ?D2 = "exampleDb\<lparr> UserFormulaState := [?other, ?row2] \<rparr>"
  have auth: "requireUser (signedIn ''u1'') = Inr \<lparr> user_id = ''u1'' \<rparr>"
    by (simp add: requireUser_def signedIn_def)
  have none: "\<forall>s \<in> set (UserFormulaState ?D).
      \<not> (s_formulaId s = us_formulaId ?i \<and> s_userId s = user_id \<lparr> user_id = ''u1'' \<rparr>)"
    by simp
  have present: "us_formulaId ?i \<in> set (map f_id (Formulas ?D))"
    by (simp add: example_defs)
  from upsert_twice_one_row [OF auth, where now = 20 and now' = 30 and d = ?D and input = ?i,
      THEN conjunct1, THEN mp, OF conjI [OF none present]]
  obtain d1 d2 row where
    a1: "upsertUserFormulaState ?i (signedIn ''u1'') 20 ?D =
        (Inr \<lparr> success = True, data = Some (StateData (Some (row\<lparr> s_updatedAt := 20 \<rparr>))) \<rparr>, d1)"
    and a2: "upsertUserFormulaState ?i (signedIn ''u1'') 30 d1 =
        (Inr \<lparr> success = True, data = Some (StateData (Some row)) \<rparr>, d2)"
    and t2: "UserFormulaState d2 = UserFormulaState ?D @ [row]"
    and g2: "FormulaGroups d2 = FormulaGroups ?D" "Formulas d2 = Formulas ?D"
      "FormulaExamples d2 = FormulaExamples ?D"
    and up: "s_updatedAt row = 30"
    by blast
  have e1: "upsertUserFormulaState ?i (signedIn ''u1'') 20 ?D =
        (Inr \<lparr> success = True, data = Some (StateData (Some ?row1)) \<rparr>, ?D1)"
    by (simp add: upsertUserFormulaState_def eval_defs example_defs)
  have eq: "(Inr \<lparr> success = True, data = Some (StateData (Some ?row1)) \<rparr>
          :: thrown + response, ?D1) =
        (Inr \<lparr> success = True, data = Some (StateData (Some (row\<lparr> s_updatedAt := 20 \<rparr>))) \<rparr>, d1)"
    by (rule trans [OF e1 [symmetric] a1])
  from eq have d1: "d1 = ?D1" by (rule Pair_inject) (rule sym)
  from eq have "Inr \<lparr> success = True, data = Some (StateData (Some ?row1)) \<rparr> =
      (Inr \<lparr> success = True, data = Some (StateData (Some (row\<lparr> s_updatedAt := 20 \<rparr>))) \<rparr>
        :: thrown + response)"
    by (rule Pair_inject)
  then have r: "row\<lparr> s_updatedAt := 20 \<rparr> = ?row1" by simp
  from r up have row: "row = ?row2"
    by (cases row) simp
  from t2 g2 have d2: "d2 = ?D2"
    by (cases d2) (simp add: row example_defs)
  from a2 have "upsertUserFormulaState ?i (signedIn ''u1'') 30 ?D1 =
        (Inr \<lparr> success = True, data = Some (StateData (Some ?row2)) \<rparr>, ?D2)"
    by (simp only: d1 d2 row)
  with e1 have A: "upsertUserFormulaState ?i (signedIn ''u1'') 20 ?D =
        (Inr \<lparr> success = True, data = Some (StateData (Some ?row1)) \<rparr>, ?D1)
      \<and> upsertUserFormulaState ?i (signedIn ''u1'') 30 ?D1 =
        (Inr \<lparr> success = True, data = Some (StateData (Some ?row2)) \<rparr>, ?D2)"
    by simp
  let ?j = "\<lparr> us_formulaId = 3, us_isFavorite = None, us_note = Some ''V over I'',
      us_familiarity = None \<rparr>"
  have auth2: "requireUser (signedIn ''u2'') = Inr \<lparr> user_id = ''u2'' \<rparr>"
    by (simp add: requireUser_def signedIn_def)
  have found: "find (\<lambda>s. s_formulaId s = us_formulaId ?j
      \<and> s_userId s = user_id \<lparr> user_id = ''u2'' \<rparr>) (UserFormulaState ?D) = Some ?other"
    by simp
  from upsert_twice_one_row [OF auth2, where now = 40 and d = ?D and input = ?j,
      THEN conjunct2, THEN conjunct1, THEN mp, OF found]
  obtain d' st where
    st: "find (\<lambda>s. s_id s = s_id ?other) (UserFormulaState ?D) = Some st"
    and b: "upsertUserFormulaState ?j (signedIn ''u2'') 40 ?D =
          (Inr \<lparr> success = True,
                 data = Some (StateData (Some
                   (st\<lparr> s_isFavorite :=
                          (case us_isFavorite ?j of None \<Rightarrow> s_isFavorite st | Some v \<Rightarrow> v),
                        s_note := (case us_note ?j of None \<Rightarrow> s_note st | Some v \<Rightarrow> Some v),
                        s_familiarity :=
                          (case us_familiarity ?j of None \<Rightarrow> s_familiarity st | Some v \<Rightarrow> v),
                        s_updatedAt := 40 \<rparr>))) \<rparr>, d')"
    by blast
  from st have st': "st = ?other" by simp
  from b have B: "fst (upsertUserFormulaState ?j (signedIn ''u2'') 40 ?D) =
      Inr \<lparr> success = True,
            data = Some (StateData (Some
              \<lparr> s_id = 5, s_userId = ''u2'', s_formulaId = 3, s_isFavorite = False,
                s_note = Some ''V over I'', s_familiarity = Learning, s_createdAt = 16,
                s_updatedAt = 40 \<rparr>)) \<rparr>"
    by (simp add: st')
  let ?k = "\<lparr> us_formulaId = 99, us_isFavorite = Some True, us_note = None,
      us_familiarity = None \<rparr>"
  have none99: "\<forall>s \<in> set (UserFormulaState exampleDb).
      \<not> (s_formulaId s = us_formulaId ?k \<and> s_userId s = user_id \<lparr> user_id = ''u1'' \<rparr>)"
    by (simp add: example_defs)
  have absent: "us_formulaId ?k \<notin> set (map f_id (Formulas exampleDb))"
    by (simp add: example_defs)
  from upsert_twice_one_row [OF auth, where now = 20 and d = exampleDb and input = ?k,
      THEN conjunct2, THEN conjunct2, THEN mp, OF conjI [OF none99 absent]]
  have C: "upsertUserFormulaState ?k (signedIn ''u1'') 20 exampleDb =
      (Inl (LibsqlError ''SQLITE_CONSTRAINT_FOREIGNKEY''), exampleDb)" .
  from A B C show ?thesis by simp
qed

text \<open>
  Claim C4 as it is written holds for every formula id. For an id that no formula has,
  both calls throw the foreign-key error and the caller has no row for the pair
  afterwards, not one.
\<close>

theorem upsert_unknown_formula_counterexample:
  "upsertUserFormulaState
      \<lparr> us_formulaId = 99, us_isFavorite = Some True, us_note = None, us_familiarity = None \<rparr>
      \<lparr> locals = Some \<lparr> user = Some \<lparr> user_id = ''u1'' \<rparr> \<rparr> \<rparr> 20
      \<lparr> FormulaGroups = [],
        Formulas = [\<lparr> f_id = 1, f_groupId = None, f_name = ''Ohm'', f_expression = ''V=IR'',
          f_description = None, f_variables = None, f_meta = None, f_difficulty = Basic,
          f_isActive = True, f_createdAt = 14, f_updatedAt = 14 \<rparr>],
        FormulaExamples = [], UserFormulaState = [] \<rparr>
    = (Inl (LibsqlError ''SQLITE_CONSTRAINT_FOREIGNKEY''),
       \<lparr> FormulaGroups = [],
        Formulas = [\<lparr> f_id = 1, f_groupId = None, f_name = ''Ohm'', f_expression = ''V=IR'',
          f_description = None, f_variables = None, f_meta = None, f_difficulty = Basic,
          f_isActive = True, f_createdAt = 14, f_updatedAt = 14 \<rparr>],
        FormulaExamples = [], UserFormulaState = [] \<rparr>)
   \<and> upsertUserFormulaState
      \<lparr> us_formulaId = 99, us_isFavorite = Some True, us_note = None, us_familiarity = None \<rparr>
      \<lparr> locals = Some \<lparr> user = Some \<lparr> user_id = ''u1'' \<rparr> \<rparr> \<rparr> 30
      \<lparr> FormulaGroups = [],
        Formulas = [\<lparr> f_id = 1, f_groupId = None, f_name = ''Ohm'', f_expression = ''V=IR'',
          f_description = None, f_variables = None, f_meta = None, f_difficulty = Basic,
          f_isActive = True, f_createdAt = 14, f_updatedAt = 14 \<rparr>],
        FormulaExamples = [], UserFormulaState = [] \<rparr>
    = (Inl (LibsqlError ''SQLITE_CONSTRAINT_FOREIGNKEY''),
       \<lparr> FormulaGroups = [],
        Formulas = [\<lparr> f_id = 1, f_groupId = None, f_name = ''Ohm'', f_expression = ''V=IR'',
          f_description = None, f_variables = None, f_meta = None, f_difficulty = Basic,
          f_isActive = True, f_createdAt = 14, f_updatedAt = 14 \<rparr>],
        FormulaExamples = [], UserFormulaState = [] \<rparr>)
   \<and> filter (\<lambda>s. s_userId s = ''u1'' \<and> s_formulaId s = 99)
        (UserFormulaState
          \<lparr> FormulaGroups = [],
            Formulas = [\<lparr> f_id = 1, f_groupId = None, f_name = ''Ohm'', f_expression = ''V=IR'',
              f_description = None, f_variables = None, f_meta = None, f_difficulty = Basic,
              f_isActive = True, f_createdAt = 14, f_updatedAt = 14 \<rparr>],
            FormulaExamples = [], UserFormulaState = [] \<rparr>) = []"
  by (simp add: upsertUserFormulaState_def eval_defs)

section \<open>C5: archiving a formula\<close>

lemma getOwnedGroup_same_groups:
  "FormulaGroups d' = FormulaGroups d \<Longrightarrow> getOwnedGroup d' gid uid = getOwnedGroup d gid uid"
  by (simp add: getOwnedGroup_def)

lemma archiveFormula_editable:
  "requireUser ctx = Inr u \<Longrightarrow>
   ensureFormulaIsEditable d (af_id input) (user_id u) = Inr fm \<Longrightarrow>
   archiveFormula input ctx now d =
     (Inr \<lparr> success = True, data = None \<rparr>,
      d\<lparr> Formulas := update_where (\<lambda>f. f_id f = af_id input) (archivePatch now) (Formulas d) \<rparr>)"
  by (simp add: archiveFormula_def)

lemma editable_after_archive:
  assumes "ensureFormulaIsEditable d fid uid = Inr fm"
  shows "ensureFormulaIsEditable
           (d\<lparr> Formulas := update_where (\<lambda>f. f_id f = fid) (archivePatch now) (Formulas d) \<rparr>)
           fid uid = Inr (archivePatch now fm)"
proof -
  let ?d' = "d\<lparr> Formulas := update_where (\<lambda>f. f_id f = fid) (archivePatch now) (Formulas d) \<rparr>"
  have id: "\<And>r. f_id (archivePatch now r) = f_id r" by (simp add: archivePatch_def)
  have grp: "\<And>r. f_groupId (archivePatch now r) = f_groupId r" by (simp add: archivePatch_def)
  have own: "\<And>g. getOwnedGroup ?d' g uid = getOwnedGroup d g uid"
    by (rule getOwnedGroup_same_groups) simp
  from assms obtain f where f: "find (\<lambda>f. f_id f = fid) (Formulas d) = Some f"
    by (auto simp: ensureFormulaIsEditable_find split: option.splits)
  then have fid: "f_id f = fid" by (auto simp: find_Some_iff)
  from f have f': "find (\<lambda>f. f_id f = fid)
      (update_where (\<lambda>f. f_id f = fid) (archivePatch now) (Formulas d)) = Some (archivePatch now f)"
    by (simp add: find_update_where [where k = f_id, OF id] fid)
  from assms f have fm: "fm = f"
    by (auto simp: ensureFormulaIsEditable_find split: option.splits sum.splits)
  from assms f have ok: "f_groupId f = None \<or> (\<exists>g x. f_groupId f = Some g \<and> getOwnedGroup d g uid = Inr x)"
    by (auto simp: ensureFormulaIsEditable_find split: option.splits sum.splits)
  have "ensureFormulaIsEditable ?d' fid uid =
          (case f_groupId f of None \<Rightarrow> Inr (archivePatch now f)
           | Some g \<Rightarrow> (case getOwnedGroup d g uid of Inl e \<Rightarrow> Inl e
                        | Inr _ \<Rightarrow> Inr (archivePatch now f)))"
    by (simp add: ensureFormulaIsEditable_find f' grp own split: option.splits)
  with ok show ?thesis by (auto simp: fm)
qed

text \<open>
  Claim C5. For a signed-in caller and a formula the caller may edit, \<open>archiveFormula\<close>
  succeeds; afterwards the other tables are as they were, the formula table has the same
  rows in the same places with the same ids (no row is removed), a row with the id of the
  input is the row it was with \<open>isActive\<close> false and \<open>updatedAt\<close> the time of the call,
  and every other row is as it was. Archiving again, at a later time \<open>now'\<close>, succeeds too
  and changes nothing of a row but its \<open>updatedAt\<close>.
\<close>

theorem archiveFormula_idempotent:
  assumes auth: "requireUser ctx = Inr u"
    and edit: "ensureFormulaIsEditable d (af_id input) (user_id u) = Inr fm"
  shows "\<exists>d1 d2.
      archiveFormula input ctx now d = (Inr \<lparr> success = True, data = None \<rparr>, d1)
    \<and> FormulaGroups d1 = FormulaGroups d \<and> FormulaExamples d1 = FormulaExamples d
    \<and> UserFormulaState d1 = UserFormulaState d
    \<and> length (Formulas d1) = length (Formulas d)
    \<and> map f_id (Formulas d1) = map f_id (Formulas d)
    \<and> (\<forall>i f. i < length (Formulas d) \<and> Formulas d ! i = f \<longrightarrow>
          Formulas d1 ! i =
            (if f_id f = af_id input then f\<lparr> f_isActive := False, f_updatedAt := now \<rparr> else f))
    \<and> archiveFormula input ctx now' d1 = (Inr \<lparr> success = True, data = None \<rparr>, d2)
    \<and> FormulaGroups d2 = FormulaGroups d1 \<and> FormulaExamples d2 = FormulaExamples d1
    \<and> UserFormulaState d2 = UserFormulaState d1
    \<and> length (Formulas d2) = length (Formulas d1)
    \<and> (\<forall>i f. i < length (Formulas d1) \<and> Formulas d1 ! i = f \<longrightarrow>
          Formulas d2 ! i = (if f_id f = af_id input then f\<lparr> f_updatedAt := now' \<rparr> else f))"
proof -
  let ?c = "\<lambda>f. f_id f = af_id input"
  let ?d1 = "d\<lparr> Formulas := update_where ?c (archivePatch now) (Formulas d) \<rparr>"
  let ?d2 = "?d1\<lparr> Formulas := update_where ?c (archivePatch now') (Formulas ?d1) \<rparr>"
  have a1: "archiveFormula input ctx now d = (Inr \<lparr> success = True, data = None \<rparr>, ?d1)"
    using auth edit by (rule archiveFormula_editable)
  have edit1: "ensureFormulaIsEditable ?d1 (af_id input) (user_id u) = Inr (archivePatch now fm)"
    using edit by (rule editable_after_archive)
  have a2: "archiveFormula input ctx now' ?d1 = (Inr \<lparr> success = True, data = None \<rparr>, ?d2)"
    using auth edit1 by (rule archiveFormula_editable)
  have ids: "map f_id (Formulas ?d1) = map f_id (Formulas d)"
    by (simp add: update_where_def archivePatch_def)
  have rows1: "\<forall>i f. i < length (Formulas d) \<and> Formulas d ! i = f \<longrightarrow>
          Formulas ?d1 ! i =
            (if f_id f = af_id input then f\<lparr> f_isActive := False, f_updatedAt := now \<rparr> else f)"
    by (simp add: update_where_def archivePatch_def)
  have rows2: "\<forall>i f. i < length (Formulas ?d1) \<and> Formulas ?d1 ! i = f \<longrightarrow>
          Formulas ?d2 ! i = (if f_id f = af_id input then f\<lparr> f_updatedAt := now' \<rparr> else f)"
    by (simp add: update_where_def archivePatch_def)
  have len1: "length (Formulas ?d1) = length (Formulas d)"
    and len2: "length (Formulas ?d2) = length (Formulas ?d1)"
    by (simp_all add: update_where_def)
  show ?thesis
    apply (rule exI [where x = ?d1])
    apply (rule exI [where x = ?d2])
    using a1 a2 ids rows1 rows2 len1 len2 apply (intro conjI)
    apply simp_all
    done
qed

text \<open>
  On the example database the caller \<open>u2\<close> archives the formula outside every group at
  time 20, and again at time 30.
\<close>

theorem archiveFormula_idempotent_witness:
  "archiveFormula \<lparr> af_id = 3 \<rparr> (signedIn ''u2'') 20 exampleDb
     = (Inr \<lparr> success = True, data = None \<rparr>,
        exampleDb\<lparr> Formulas := [ownedFormula, sharedFormula,
          freeFormula\<lparr> f_isActive := False, f_updatedAt := 20 \<rparr>] \<rparr>)
   \<and> archiveFormula \<lparr> af_id = 3 \<rparr> (signedIn ''u2'') 30
        (exampleDb\<lparr> Formulas := [ownedFormula, sharedFormula,
          freeFormula\<lparr> f_isActive := False, f_updatedAt := 20 \<rparr>] \<rparr>)
     = (Inr \<lparr> success = True, data = None \<rparr>,
        exampleDb\<lparr> Formulas := [ownedFormula, sharedFormula,
          freeFormula\<lparr> f_isActive := False, f_updatedAt := 30 \<rparr>] \<rparr>)"
proof -
  let ?D1 = "exampleDb\<lparr> Formulas := [ownedFormula, sharedFormula,
          freeFormula\<lparr> f_isActive := False, f_updatedAt := 20 \<rparr>] \<rparr>"
  let ?D2 = "exampleDb\<lparr> Formulas := [ownedFormula, sharedFormula,
          freeFormula\<lparr> f_isActive := False, f_updatedAt := 30 \<rparr>] \<rparr>"
  have auth: "requireUser (signedIn ''u2'') = Inr \<lparr> user_id = ''u2'' \<rparr>"
    by (simp add: requireUser_def signedIn_def)
  have edit: "ensureFormulaIsEditable exampleDb (af_id \<lparr> af_id = 3 \<rparr>)
      (user_id \<lparr> user_id = ''u2'' \<rparr>) = Inr freeFormula"
    by (simp add: ensureFormulaIsEditable_find example_defs)
  from archiveFormula_idempotent [OF auth edit, of 20 30] obtain d1 d2 where
    a1: "archiveFormula \<lparr> af_id = 3 \<rparr> (signedIn ''u2'') 20 exampleDb
          = (Inr \<lparr> success = True, data = None \<rparr>, d1)"
    and a2: "archiveFormula \<lparr> af_id = 3 \<rparr> (signedIn ''u2'') 30 d1
          = (Inr \<lparr> success = True, data = None \<rparr>, d2)"
    and r2: "\<forall>i f. i < length (Formulas d1) \<and> Formulas d1 ! i = f \<longrightarrow>
          Formulas d2 ! i =
            (if f_id f = af_id \<lparr> af_id = 3 \<rparr> then f\<lparr> f_updatedAt := 30 \<rparr> else f)"
    by blast
  have e1: "archiveFormula \<lparr> af_id = 3 \<rparr> (signedIn ''u2'') 20 exampleDb
          = (Inr \<lparr> success = True, data = None \<rparr>, ?D1)"
    by (simp add: archiveFormula_def archivePatch_def eval_defs example_defs)
  from a1 e1 have d1: "d1 = ?D1" by simp
  have e2: "snd (archiveFormula \<lparr> af_id = 3 \<rparr> (signedIn ''u2'') 30 ?D1) = ?D2"
    by (simp add: archiveFormula_def archivePatch_def eval_defs example_defs)
  from a2 d1 e2 have "archiveFormula \<lparr> af_id = 3 \<rparr> (signedIn ''u2'') 30 ?D1
          = (Inr \<lparr> success = True, data = None \<rparr>, ?D2)"
    by simp
  with e1 show ?thesis by simp
qed

section \<open>C6: the response envelope\<close>

lemma createFormulaGroup_envelope:
  "createFormulaGroup i ctx now d = (Inr r, d') \<Longrightarrow> success r = True \<and> data r \<noteq> None"
  by (auto simp: createFormulaGroup_def Let_def split: sum.splits)

lemma updateFormulaGroup_envelope:
  "updateFormulaGroup i ctx now d = (Inr r, d') \<Longrightarrow> success r = True \<and> data r \<noteq> None"
  by (auto simp: updateFormulaGroup_def Let_def split: sum.splits)

lemma listMyFormulaGroups_envelope:
  "listMyFormulaGroups i ctx now d = (Inr r, d') \<Longrightarrow> success r = True \<and> data r \<noteq> None"
  by (auto simp: listMyFormulaGroups_def Let_def split: sum.splits)

lemma createFormula_envelope:
  "createFormula i ctx now d = (Inr r, d') \<Longrightarrow> success r = True \<and> data r \<noteq> None"
  by (auto simp: createFormula_def Let_def split: sum.splits option.splits)

lemma updateFormula_envelope:
  "updateFormula i ctx now d = (Inr r, d') \<Longrightarrow> success r = True \<and> data r \<noteq> None"
  by (auto simp: updateFormula_def Let_def split: sum.splits option.splits)

lemma archiveFormula_envelope:
  "archiveFormula i ctx now d = (Inr r, d') \<Longrightarrow> success r = True \<and> data r = None"
  by (auto simp: archiveFormula_def split: sum.splits)

lemma listFormulas_envelope:
  "listFormulas i ctx now d = (Inr r, d') \<Longrightarrow> success r = True \<and> data r \<noteq> None"
  by (auto simp: listFormulas_def Let_def split: sum.splits)

lemma createFormulaExample_envelope:
  "createFormulaExample i ctx now d = (Inr r, d') \<Longrightarrow> success r = True \<and> data r \<noteq> None"
  by (auto simp: createFormulaExample_def Let_def split: sum.splits option.splits)

lemma listFormulaExamples_envelope:
  "listFormulaExamples i ctx now d = (Inr r, d') \<Longrightarrow> success r = True \<and> data r \<noteq> None"
  by (auto simp: listFormulaExamples_def Let_def split: sum.splits)

lemma upsertUserFormulaState_envelope:
  "upsertUserFormulaState i ctx now d = (Inr r, d') \<Longrightarrow> success r = True \<and> data r \<noteq> None"
  by (auto simp: upsertUserFormulaState_def Let_def split: sum.splits list.splits if_splits)

lemma listUserFormulaStates_envelope:
  "listUserFormulaStates i ctx now d = (Inr r, d') \<Longrightarrow> success r = True \<and> data r \<noteq> None"
  by (auto simp: listUserFormulaStates_def Let_def split: sum.splits)

text \<open>
  Claim C6, as amended. Every action of the server that succeeds returns
  \<open>success = true\<close>; it returns a \<open>data\<close> object too, unless the action is
  \<open>archiveFormula\<close>, which returns \<open>{ success: true }\<close> and no \<open>data\<close>.
\<close>

theorem success_envelope:
  "server a ctx now d = (Inr r, d') \<Longrightarrow>
   success r = True \<and> (data r = None \<longleftrightarrow> (\<exists>i. a = ArchiveFormula i))"
  by (cases a)
    (auto dest: createFormulaGroup_envelope updateFormulaGroup_envelope
      listMyFormulaGroups_envelope createFormula_envelope updateFormula_envelope
      archiveFormula_envelope listFormulas_envelope createFormulaExample_envelope
      listFormulaExamples_envelope upsertUserFormulaState_envelope
      listUserFormulaStates_envelope)

text \<open>
  On the example database: creating a group returns the new group as \<open>data\<close>, archiving
  a formula returns no \<open>data\<close>.
\<close>

theorem success_envelope_witness:
  "server (CreateFormulaGroup \<lparr> cg_name = ''Optics'', cg_subject = None, cg_tags = None,
        cg_description = None, cg_slug = None, cg_isActive = None \<rparr>) (signedIn ''u2'') 20 exampleDb
     = (Inr \<lparr> success = True,
              data = Some (GroupData (Some \<lparr> g_id = 3, g_ownerId = Some ''u2'',
                g_name = ''Optics'', g_subject = None, g_tags = None, g_description = None,
                g_slug = None, g_isActive = True, g_createdAt = 20, g_updatedAt = 20 \<rparr>)) \<rparr>,
        exampleDb\<lparr> FormulaGroups := [ownedGroup, sharedGroup,
          \<lparr> g_id = 3, g_ownerId = Some ''u2'', g_name = ''Optics'', g_subject = None,
            g_tags = None, g_description = None, g_slug = None, g_isActive = True,
            g_createdAt = 20, g_updatedAt = 20 \<rparr>] \<rparr>)
   \<and> success \<lparr> success = True,
              data = Some (GroupData (Some \<lparr> g_id = 3, g_ownerId = Some ''u2'',
                g_name = ''Optics'', g_subject = None, g_tags = None, g_description = None,
                g_slug = None, g_isActive = True, g_createdAt = 20, g_updatedAt = 20 \<rparr>)) \<rparr> = True
   \<and> fst (server (ArchiveFormula \<lparr> af_id = 3 \<rparr>) (signedIn ''u2'') 20 exampleDb)
     = Inr \<lparr> success = True, data = None \<rparr>"
proof -
  let ?g = "\<lparr> g_id = 3, g_ownerId = Some ''u2'', g_name = ''Optics'', g_subject = None,
            g_tags = None, g_description = None, g_slug = None, g_isActive = True,
            g_createdAt = 20, g_updatedAt = 20 \<rparr>"
  let ?r = "\<lparr> success = True, data = Some (GroupData (Some ?g)) \<rparr>"
  have h: "server (CreateFormulaGroup \<lparr> cg_name = ''Optics'', cg_subject = None, cg_tags = None,
        cg_description = None, cg_slug = None, cg_isActive = None \<rparr>) (signedIn ''u2'') 20 exampleDb
     = (Inr ?r, exampleDb\<lparr> FormulaGroups := [ownedGroup, sharedGroup, ?g] \<rparr>)"
    by (simp add: createFormulaGroup_def eval_defs example_defs)
  have s: "success ?r = True" using success_envelope [OF h] by simp
  have a: "fst (server (ArchiveFormula \<lparr> af_id = 3 \<rparr>) (signedIn ''u2'') 20 exampleDb)
     = Inr \<lparr> success = True, data = None \<rparr>"
    by (simp add: archiveFormula_def archivePatch_def eval_defs example_defs)
  from h s a show ?thesis by simp
qed

text \<open>
  Claim C6 as it is written gives every successful action a \<open>data\<close> object. The handler
  of \<open>archiveFormula\<close> ends with \<open>return { success: true }\<close>: its response has none.
\<close>

theorem archiveFormula_data_counterexample:
  "server (ArchiveFormula \<lparr> af_id = 1 \<rparr>)
      \<lparr> locals = Some \<lparr> user = Some \<lparr> user_id = ''u1'' \<rparr> \<rparr> \<rparr> 20
      \<lparr> FormulaGroups = [],
        Formulas = [\<lparr> f_id = 1, f_groupId = None, f_name = ''Ohm'', f_expression = ''V=IR'',
          f_description = None, f_variables = None, f_meta = None, f_difficulty = Basic,
          f_isActive = True, f_createdAt = 14, f_updatedAt = 14 \<rparr>],
        FormulaExamples = [], UserFormulaState = [] \<rparr>
     = (Inr \<lparr> success = True, data = None \<rparr>,
        \<lparr> FormulaGroups = [],
          Formulas = [\<lparr> f_id = 1, f_groupId = None, f_name = ''Ohm'', f_expression = ''V=IR'',
            f_description = None, f_variables = None, f_meta = None, f_difficulty = Basic,
            f_isActive = False, f_createdAt = 14, f_updatedAt = 20 \<rparr>],
          FormulaExamples = [], UserFormulaState = [] \<rparr>)
   \<and> data \<lparr> success = True, data = None \<rparr> = None"
  by (simp add: archiveFormula_def archivePatch_def eval_defs)

section \<open>C7: UNAUTHORIZED comes before FORBIDDEN\<close>

lemma requireUser_signedOut:
  "locals ctx = None \<or> (\<exists>l. locals ctx = Some l \<and> user l = None) \<Longrightarrow>
   requireUser ctx = Inl (ActionError UNAUTHORIZED ''You must be signed in to perform this action.'')"
  by (auto simp: requireUser_def)

lemma server_requireUser_Inl:
  "requireUser ctx = Inl e \<Longrightarrow> server a ctx now d = (Inl e, d)"
  by (cases a)
    (simp_all add: createFormulaGroup_def updateFormulaGroup_def listMyFormulaGroups_def
      createFormula_def updateFormula_def archiveFormula_def listFormulas_def
      createFormulaExample_def listFormulaExamples_def upsertUserFormulaState_def
      listUserFormulaStates_def)

text \<open>
  Claim C7, as amended. Every action of the server, called with no signed-in user (no
  \<open>locals\<close>, or no \<open>user\<close> in them), fails with UNAUTHORIZED whatever the database
  holds and leaves it as it is, so such a caller never receives FORBIDDEN. A signed-in
  caller who updates a group whose owner is set, is not the empty string and is not the
  caller receives FORBIDDEN.
\<close>

theorem unauthorized_before_forbidden:
  "(locals ctx = None \<or> (\<exists>l. locals ctx = Some l \<and> user l = None) \<longrightarrow>
      server a ctx now d =
        (Inl (ActionError UNAUTHORIZED ''You must be signed in to perform this action.''), d))
   \<and> (requireUser ctx = Inr u
        \<and> find (\<lambda>g. g_id g = ug_id input) (FormulaGroups d) = Some grp
        \<and> g_ownerId grp = Some ow \<and> ow \<noteq> [] \<and> ow \<noteq> user_id u \<longrightarrow>
      updateFormulaGroup input ctx now d =
        (Inl (ActionError FORBIDDEN ''You do not have access to this group.''), d))"
proof (intro conjI impI)
  assume "locals ctx = None \<or> (\<exists>l. locals ctx = Some l \<and> user l = None)"
  then show "server a ctx now d =
        (Inl (ActionError UNAUTHORIZED ''You must be signed in to perform this action.''), d)"
    by (simp add: requireUser_signedOut server_requireUser_Inl)
next
  assume "requireUser ctx = Inr u
        \<and> find (\<lambda>g. g_id g = ug_id input) (FormulaGroups d) = Some grp
        \<and> g_ownerId grp = Some ow \<and> ow \<noteq> [] \<and> ow \<noteq> user_id u"
  then show "updateFormulaGroup input ctx now d =
        (Inl (ActionError FORBIDDEN ''You do not have access to this group.''), d)"
    by (simp add: updateFormulaGroup_def getOwnedGroup_find truthy_def)
qed

theorem unauthorized_before_forbidden_witness:
  "updateFormulaGroup \<lparr> ug_id = 1, ug_name = None, ug_subject = None, ug_tags = Some ''motion'',
        ug_description = None, ug_slug = None, ug_isActive = None \<rparr> signedOut 20 exampleDb
     = (Inl (ActionError UNAUTHORIZED ''You must be signed in to perform this action.''), exampleDb)
   \<and> updateFormulaGroup \<lparr> ug_id = 1, ug_name = None, ug_subject = None, ug_tags = Some ''motion'',
        ug_description = None, ug_slug = None, ug_isActive = None \<rparr>
        \<lparr> locals = None \<rparr> 20 exampleDb
     = (Inl (ActionError UNAUTHORIZED ''You must be signed in to perform this action.''), exampleDb)
   \<and> updateFormulaGroup \<lparr> ug_id = 1, ug_name = None, ug_subject = None, ug_tags = Some ''motion'',
        ug_description = None, ug_slug = None, ug_isActive = None \<rparr> (signedIn ''u2'') 20 exampleDb
     = (Inl (ActionError FORBIDDEN ''You do not have access to this group.''), exampleDb)"
proof -
  let ?i = "\<lparr> ug_id = 1, ug_name = None, ug_subject = None, ug_tags = Some ''motion'',
        ug_description = None, ug_slug = None, ug_isActive = None \<rparr>"
  have a: "server (UpdateFormulaGroup ?i) signedOut 20 exampleDb
     = (Inl (ActionError UNAUTHORIZED ''You must be signed in to perform this action.''), exampleDb)"
    using unauthorized_before_forbidden [where ctx = signedOut and a = "UpdateFormulaGroup ?i"
        and now = 20 and d = exampleDb]
    by (simp add: signedOut_def)
  have b: "server (UpdateFormulaGroup ?i) \<lparr> locals = None \<rparr> 20 exampleDb
     = (Inl (ActionError UNAUTHORIZED ''You must be signed in to perform this action.''), exampleDb)"
    using unauthorized_before_forbidden [where ctx = "\<lparr> locals = None \<rparr>"
        and a = "UpdateFormulaGroup ?i" and now = 20 and d = exampleDb]
    by simp
  have c: "updateFormulaGroup ?i (signedIn ''u2'') 20 exampleDb
     = (Inl (ActionError FORBIDDEN ''You do not have access to this group.''), exampleDb)"
    using unauthorized_before_forbidden [where ctx = "signedIn ''u2''"
        and u = "\<lparr> user_id = ''u2'' \<rparr>" and input = ?i and d = exampleDb
        and grp = ownedGroup and ow = "''u1''" and now = 20]
    by (simp add: requireUser_def example_defs)
  from a b c show ?thesis by simp
qed

text \<open>
  Claim C7 as it is written promises FORBIDDEN for every group with a non-null owner other
  than the caller. A group whose owner is the empty string is updated by the caller
  \<open>u2\<close>.
\<close>

theorem forbidden_on_update_counterexample:
  "g_ownerId \<lparr> g_id = 1, g_ownerId = Some '''', g_name = ''Kinematics'',
      g_subject = None, g_tags = None, g_description = None, g_slug = None,
      g_isActive = True, g_createdAt = 10, g_updatedAt = 10 \<rparr> \<noteq> None
   \<and> g_ownerId \<lparr> g_id = 1, g_ownerId = Some '''', g_name = ''Kinematics'',
      g_subject = None, g_tags = None, g_description = None, g_slug = None,
      g_isActive = True, g_createdAt = 10, g_updatedAt = 10 \<rparr> \<noteq> Some ''u2''
   \<and> updateFormulaGroup
        \<lparr> ug_id = 1, ug_name = None, ug_subject = None, ug_tags = Some ''motion'',
          ug_description = None, ug_slug = None, ug_isActive = None \<rparr>
        \<lparr> locals = Some \<lparr> user = Some \<lparr> user_id = ''u2'' \<rparr> \<rparr> \<rparr>
        20
        \<lparr> FormulaGroups = [\<lparr> g_id = 1, g_ownerId = Some '''', g_name = ''Kinematics'',
            g_subject = None, g_tags = None, g_description = None, g_slug = None,
            g_isActive = True, g_createdAt = 10, g_updatedAt = 10 \<rparr>],
          Formulas = [], FormulaExamples = [], UserFormulaState = [] \<rparr>
     = (Inr \<lparr> success = True,
              data = Some (GroupData (Some \<lparr> g_id = 1, g_ownerId = Some '''',
                g_name = ''Kinematics'', g_subject = None, g_tags = Some ''motion'',
                g_description = None, g_slug = None, g_isActive = True, g_createdAt = 10,
                g_updatedAt = 20 \<rparr>)) \<rparr>,
        \<lparr> FormulaGroups = [\<lparr> g_id = 1, g_ownerId = Some '''', g_name = ''Kinematics'',
            g_subject = None, g_tags = Some ''motion'', g_description = None, g_slug = None,
            g_isActive = True, g_createdAt = 10, g_updatedAt = 20 \<rparr>],
          Formulas = [], FormulaExamples = [], UserFormulaState = [] \<rparr>)"
  by (simp add: updateFormulaGroup_def requireUser_def getOwnedGroup_def select_where_def
      truthy_def Let_def first_row_def returning_def update_where_def groupPatch_def
      provided_def providedOpt_def)

section \<open>C8: formulas outside every group\<close>

lemma formulaPatch_record:
  "formulaPatch input now f =
     f\<lparr> f_groupId := (case uf_groupId input of None \<Rightarrow> f_groupId f | Some v \<Rightarrow> Some v),
        f_name := (case uf_name input of None \<Rightarrow> f_name f | Some v \<Rightarrow> v),
        f_expression := (case uf_expression input of None \<Rightarrow> f_expression f | Some v \<Rightarrow> v),
        f_description :=
          (case uf_description input of None \<Rightarrow> f_description f | Some v \<Rightarrow> Some v),
        f_variables := (case uf_variables input of None \<Rightarrow> f_variables f | Some v \<Rightarrow> Some v),
        f_meta := (case uf_meta input of None \<Rightarrow> f_meta f | Some v \<Rightarrow> Some v),
        f_difficulty := (case uf_difficulty input of None \<Rightarrow> f_difficulty f | Some v \<Rightarrow> v),
        f_isActive := (case uf_isActive input of None \<Rightarrow> f_isActive f | Some v \<Rightarrow> v),
        f_updatedAt := now \<rparr>"
  by (simp add: formulaPatch_def provided_def providedOpt_def)

lemma find_patched:
  assumes "find (\<lambda>f. f_id f = fid) rows = Some fm" and "\<And>r. f_id (p r) = f_id r"
  shows "find (\<lambda>f. f_id f = fid) (update_where (\<lambda>f. f_id f = fid) p rows) = Some (p fm)"
proof -
  from assms(1) have "f_id fm = fid" by (auto simp: find_Some_iff)
  then show ?thesis
    using assms by (simp add: find_update_where [where k = f_id])
qed

lemma ungrouped_archive:
  assumes found: "find (\<lambda>f. f_id f = fid) (Formulas d) = Some fm"
    and nogroup: "f_groupId fm = None"
    and auth: "requireUser ctx = Inr u"
  shows "archiveFormula \<lparr> af_id = fid \<rparr> ctx now d =
      (Inr \<lparr> success = True, data = None \<rparr>,
       d\<lparr> Formulas := update_where (\<lambda>f. f_id f = fid) (archivePatch now) (Formulas d) \<rparr>)"
  using assms by (simp add: archiveFormula_def ensureFormulaIsEditable_find)

lemma ungrouped_example:
  assumes found: "find (\<lambda>f. f_id f = ce_formulaId ci) (Formulas d) = Some fm"
    and nogroup: "f_groupId fm = None"
    and auth: "requireUser ctx = Inr u"
  shows "createFormulaExample ci ctx now d =
      (Inr \<lparr> success = True,
             data = Some (ExampleData (Some
               \<lparr> e_id = nextId (map e_id (FormulaExamples d)), e_formulaId = ce_formulaId ci,
                 e_title = ce_title ci, e_problem = ce_problem ci, e_solution = ce_solution ci,
                 e_data = ce_data ci, e_createdAt = now \<rparr>)) \<rparr>,
       d\<lparr> FormulaExamples := FormulaExamples d @
         [\<lparr> e_id = nextId (map e_id (FormulaExamples d)), e_formulaId = ce_formulaId ci,
            e_title = ce_title ci, e_problem = ce_problem ci, e_solution = ce_solution ci,
            e_data = ce_data ci, e_createdAt = now \<rparr>] \<rparr>)"
  using assms by (simp add: createFormulaExample_def ensureFormulaIsEditable_find Let_def)

lemma ungrouped_update:
  assumes found: "find (\<lambda>f. f_id f = uf_id fi) (Formulas d) = Some fm"
    and nogroup: "f_groupId fm = None"
    and auth: "requireUser ctx = Inr u"
    and dest: "uf_groupId fi = None
       \<or> (\<exists>dest grp. uf_groupId fi = Some dest \<and> getOwnedGroup d dest (user_id u) = Inr grp)"
  shows "updateFormula fi ctx now d =
      (Inr \<lparr> success = True, data = Some (FormulaData (Some (formulaPatch fi now fm))) \<rparr>,
       d\<lparr> Formulas := update_where (\<lambda>f. f_id f = uf_id fi) (formulaPatch fi now) (Formulas d) \<rparr>)"
  using assms
  by (auto simp: updateFormula_def ensureFormulaIsEditable_find Let_def first_row_returning)

text \<open>
  Claim C8. When the formula found under an id has no \<open>groupId\<close>,
  \<open>ensureFormulaIsEditable\<close> returns it for every user id, and every signed-in caller,
  whoever it is, may change it:
  \<^item> \<open>archiveFormula\<close> succeeds, and the formula found under the id afterwards is the
    formula with \<open>isActive\<close> false and \<open>updatedAt\<close> the time of the call;
  \<^item> \<open>createFormulaExample\<close> for it succeeds, returns the new example and appends it to
    the example table: the example carries the formula id, the title, problem, solution
    and data of the input and the time of the call, under an id no stored example has;
    the other tables are as they were;
  \<^item> \<open>updateFormula\<close> on it succeeds when the input supplies no \<open>groupId\<close>, or one whose
    ownership check passes; it returns the patched formula, which is the formula found
    under the id afterwards: each field takes the supplied value when the input supplies
    one and keeps its own otherwise, and \<open>updatedAt\<close> is the time of the call.
  The formula row has no owner column, and no check reads anything of the formula but
  its \<open>groupId\<close>.
\<close>

theorem ungrouped_formula_editable_by_all:
  assumes found: "find (\<lambda>f. f_id f = fid) (Formulas d) = Some fm"
    and nogroup: "f_groupId fm = None"
  shows "ensureFormulaIsEditable d fid uid = Inr fm
    \<and> (requireUser ctx = Inr u \<longrightarrow>
          (\<exists>d'. archiveFormula \<lparr> af_id = fid \<rparr> ctx now d =
                  (Inr \<lparr> success = True, data = None \<rparr>, d')
             \<and> find (\<lambda>f. f_id f = fid) (Formulas d') =
                  Some (fm\<lparr> f_isActive := False, f_updatedAt := now \<rparr>)
             \<and> length (Formulas d') = length (Formulas d))
        \<and> (ce_formulaId ci = fid \<longrightarrow>
             (\<exists>d' ex. createFormulaExample ci ctx now d =
                  (Inr \<lparr> success = True, data = Some (ExampleData (Some ex)) \<rparr>, d')
                \<and> FormulaExamples d' = FormulaExamples d @ [ex]
                \<and> e_formulaId ex = fid \<and> e_title ex = ce_title ci
                \<and> e_problem ex = ce_problem ci \<and> e_solution ex = ce_solution ci
                \<and> e_data ex = ce_data ci \<and> e_createdAt ex = now
                \<and> e_id ex \<notin> set (map e_id (FormulaExamples d))
                \<and> FormulaGroups d' = FormulaGroups d \<and> Formulas d' = Formulas d
                \<and> UserFormulaState d' = UserFormulaState d))
        \<and> (uf_id fi = fid
             \<and> (uf_groupId fi = None
                 \<or> (\<exists>dest grp. uf_groupId fi = Some dest
                       \<and> getOwnedGroup d dest (user_id u) = Inr grp)) \<longrightarrow>
             (\<exists>d' fm'. updateFormula fi ctx now d =
                  (Inr \<lparr> success = True, data = Some (FormulaData (Some fm')) \<rparr>, d')
                \<and> find (\<lambda>f. f_id f = fid) (Formulas d') = Some fm'
                \<and> length (Formulas d') = length (Formulas d)
                \<and> fm' = fm\<lparr>
                     f_groupId := (case uf_groupId fi of None \<Rightarrow> f_groupId fm | Some v \<Rightarrow> Some v),
                     f_name := (case uf_name fi of None \<Rightarrow> f_name fm | Some v \<Rightarrow> v),
                     f_expression :=
                       (case uf_expression fi of None \<Rightarrow> f_expression fm | Some v \<Rightarrow> v),
                     f_description :=
                       (case uf_description fi of None \<Rightarrow> f_description fm | Some v \<Rightarrow> Some v),
                     f_variables :=
                       (case uf_variables fi of None \<Rightarrow> f_variables fm | Some v \<Rightarrow> Some v),
                     f_meta := (case uf_meta fi of None \<Rightarrow> f_meta fm | Some v \<Rightarrow> Some v),
                     f_difficulty :=
                       (case uf_difficulty fi of None \<Rightarrow> f_difficulty fm | Some v \<Rightarrow> v),
                     f_isActive := (case uf_isActive fi of None \<Rightarrow> f_isActive fm | Some v \<Rightarrow> v),
                     f_updatedAt := now \<rparr>)))"
proof (intro conjI impI)
  show "ensureFormulaIsEditable d fid uid = Inr fm"
    using found nogroup by (simp add: ensureFormulaIsEditable_find)
next
  assume auth: "requireUser ctx = Inr u"
  let ?d' = "d\<lparr> Formulas := update_where (\<lambda>f. f_id f = fid) (archivePatch now) (Formulas d) \<rparr>"
  have "archiveFormula \<lparr> af_id = fid \<rparr> ctx now d = (Inr \<lparr> success = True, data = None \<rparr>, ?d')"
    using found nogroup auth by (rule ungrouped_archive)
  moreover have "find (\<lambda>f. f_id f = fid) (Formulas ?d') =
      Some (fm\<lparr> f_isActive := False, f_updatedAt := now \<rparr>)"
    using find_patched [OF found, of "archivePatch now"] by (simp add: archivePatch_def)
  moreover have "length (Formulas ?d') = length (Formulas d)"
    by (simp add: length_update_where)
  ultimately show "\<exists>d'. archiveFormula \<lparr> af_id = fid \<rparr> ctx now d =
                  (Inr \<lparr> success = True, data = None \<rparr>, d')
             \<and> find (\<lambda>f. f_id f = fid) (Formulas d') =
                  Some (fm\<lparr> f_isActive := False, f_updatedAt := now \<rparr>)
             \<and> length (Formulas d') = length (Formulas d)"
    by blast
next
  assume auth: "requireUser ctx = Inr u" and ci: "ce_formulaId ci = fid"
  let ?ex = "\<lparr> e_id = nextId (map e_id (FormulaExamples d)), e_formulaId = ce_formulaId ci,
                 e_title = ce_title ci, e_problem = ce_problem ci, e_solution = ce_solution ci,
                 e_data = ce_data ci, e_createdAt = now \<rparr>"
  let ?d' = "d\<lparr> FormulaExamples := FormulaExamples d @ [?ex] \<rparr>"
  have res: "createFormulaExample ci ctx now d =
      (Inr \<lparr> success = True, data = Some (ExampleData (Some ?ex)) \<rparr>, ?d')"
    using found nogroup auth unfolding ci [symmetric] by (rule ungrouped_example)
  have fresh: "e_id ?ex \<notin> set (map e_id (FormulaExamples d))"
    using nextId_fresh [of "e_id ?ex" "map e_id (FormulaExamples d)"] by auto
  show "\<exists>d' ex. createFormulaExample ci ctx now d =
                  (Inr \<lparr> success = True, data = Some (ExampleData (Some ex)) \<rparr>, d')
                \<and> FormulaExamples d' = FormulaExamples d @ [ex]
                \<and> e_formulaId ex = fid \<and> e_title ex = ce_title ci
                \<and> e_problem ex = ce_problem ci \<and> e_solution ex = ce_solution ci
                \<and> e_data ex = ce_data ci \<and> e_createdAt ex = now
                \<and> e_id ex \<notin> set (map e_id (FormulaExamples d))
                \<and> FormulaGroups d' = FormulaGroups d \<and> Formulas d' = Formulas d
                \<and> UserFormulaState d' = UserFormulaState d"
    apply (rule exI [where x = ?d'])
    apply (rule exI [where x = ?ex])
    using res fresh ci
    apply (intro conjI)
    apply simp_all
    done
next
  assume auth: "requireUser ctx = Inr u"
    and h: "uf_id fi = fid
             \<and> (uf_groupId fi = None
                 \<or> (\<exists>dest grp. uf_groupId fi = Some dest
                       \<and> getOwnedGroup d dest (user_id u) = Inr grp))"
  then have fi: "uf_id fi = fid"
    and dest: "uf_groupId fi = None
       \<or> (\<exists>dest grp. uf_groupId fi = Some dest \<and> getOwnedGroup d dest (user_id u) = Inr grp)"
    by blast+
  let ?d' = "d\<lparr> Formulas :=
      update_where (\<lambda>f. f_id f = uf_id fi) (formulaPatch fi now) (Formulas d) \<rparr>"
  have found': "find (\<lambda>f. f_id f = uf_id fi) (Formulas d) = Some fm"
    using found by (simp add: fi)
  have res: "updateFormula fi ctx now d =
      (Inr \<lparr> success = True, data = Some (FormulaData (Some (formulaPatch fi now fm))) \<rparr>, ?d')"
    using found' nogroup auth dest by (rule ungrouped_update)
  have after: "find (\<lambda>f. f_id f = fid) (Formulas ?d') = Some (formulaPatch fi now fm)"
    using find_patched [OF found, of "formulaPatch fi now"]
    by (simp add: fi formulaPatch_def)
  have len: "length (Formulas ?d') = length (Formulas d)"
    by (simp add: length_update_where)
  show "\<exists>d' fm'. updateFormula fi ctx now d =
                  (Inr \<lparr> success = True, data = Some (FormulaData (Some fm')) \<rparr>, d')
                \<and> find (\<lambda>f. f_id f = fid) (Formulas d') = Some fm'
                \<and> length (Formulas d') = length (Formulas d)
                \<and> fm' = fm\<lparr>
                     f_groupId := (case uf_groupId fi of None \<Rightarrow> f_groupId fm | Some v \<Rightarrow> Some v),
                     f_name := (case uf_name fi of None \<Rightarrow> f_name fm | Some v \<Rightarrow> v),
                     f_expression :=
                       (case uf_expression fi of None \<Rightarrow> f_expression fm | Some v \<Rightarrow> v),
                     f_description :=
                       (case uf_description fi of None \<Rightarrow> f_description fm | Some v \<Rightarrow> Some v),
                     f_variables :=
                       (case uf_variables fi of None \<Rightarrow> f_variables fm | Some v \<Rightarrow> Some v),
                     f_meta := (case uf_meta fi of None \<Rightarrow> f_meta fm | Some v \<Rightarrow> Some v),
                     f_difficulty :=
                       (case uf_difficulty fi of None \<Rightarrow> f_difficulty fm | Some v \<Rightarrow> v),
                     f_isActive := (case uf_isActive fi of None \<Rightarrow> f_isActive fm | Some v \<Rightarrow> v),
                     f_updatedAt := now \<rparr>"
    apply (rule exI [where x = ?d'])
    apply (rule exI [where x = "formulaPatch fi now fm"])
    using res after len
    apply (intro conjI)
    apply (simp_all add: formulaPatch_record [symmetric])
    done
qed

text \<open>
  On the example database the formula with id 3 is outside every group; the caller
  \<open>u2\<close>, who created nothing, archives it, adds an example to it and renames it.
\<close>

theorem ungrouped_formula_editable_by_all_witness:
  "ensureFormulaIsEditable exampleDb 3 ''u2'' = Inr freeFormula
   \<and> fst (archiveFormula \<lparr> af_id = 3 \<rparr> (signedIn ''u2'') 20 exampleDb)
       = Inr \<lparr> success = True, data = None \<rparr>
   \<and> find (\<lambda>f. f_id f = 3)
         (Formulas (snd (archiveFormula \<lparr> af_id = 3 \<rparr> (signedIn ''u2'') 20 exampleDb)))
       = Some (freeFormula\<lparr> f_isActive := False, f_updatedAt := 20 \<rparr>)
   \<and> (\<exists>ex. fst (createFormulaExample
         \<lparr> ce_formulaId = 3, ce_title = None, ce_problem = ''R = 2, I = 3'',
           ce_solution = ''V = 6'', ce_data = None \<rparr> (signedIn ''u2'') 20 exampleDb)
          = Inr \<lparr> success = True, data = Some (ExampleData (Some ex)) \<rparr>
        \<and> FormulaExamples (snd (createFormulaExample
         \<lparr> ce_formulaId = 3, ce_title = None, ce_problem = ''R = 2, I = 3'',
           ce_solution = ''V = 6'', ce_data = None \<rparr> (signedIn ''u2'') 20 exampleDb)) = [ex]
        \<and> e_formulaId ex = 3 \<and> e_problem ex = ''R = 2, I = 3'' \<and> e_solution ex = ''V = 6''
        \<and> e_createdAt ex = 20)
   \<and> fst (updateFormula
         \<lparr> uf_id = 3, uf_groupId = None, uf_name = Some ''Ohm law'', uf_expression = None,
           uf_description = None, uf_variables = None, uf_meta = None, uf_difficulty = None,
           uf_isActive = None \<rparr> (signedIn ''u2'') 20 exampleDb)
       = Inr \<lparr> success = True,
               data = Some (FormulaData (Some
                 (freeFormula\<lparr> f_name := ''Ohm law'', f_updatedAt := 20 \<rparr>))) \<rparr>
   \<and> find (\<lambda>f. f_id f = 3)
         (Formulas (snd (updateFormula
         \<lparr> uf_id = 3, uf_groupId = None, uf_name = Some ''Ohm law'', uf_expression = None,
           uf_description = None, uf_variables = None, uf_meta = None, uf_difficulty = None,
           uf_isActive = None \<rparr> (signedIn ''u2'') 20 exampleDb)))
       = Some (freeFormula\<lparr> f_name := ''Ohm law'', f_updatedAt := 20 \<rparr>)"
proof -
  let ?ci = "\<lparr> ce_formulaId = 3, ce_title = None, ce_problem = ''R = 2, I = 3'',
           ce_solution = ''V = 6'', ce_data = None \<rparr>"
  let ?fi = "\<lparr> uf_id = 3, uf_groupId = None, uf_name = Some ''Ohm law'', uf_expression = None,
           uf_description = None, uf_variables = None, uf_meta = None, uf_difficulty = None,
           uf_isActive = None \<rparr>"
  have found: "find (\<lambda>f. f_id f = 3) (Formulas exampleDb) = Some freeFormula"
    by (simp add: example_defs)
  have nogroup: "f_groupId freeFormula = None" by (simp add: example_defs)
  have auth: "requireUser (signedIn ''u2'') = Inr \<lparr> user_id = ''u2'' \<rparr>"
    by (simp add: requireUser_def signedIn_def)
  note T = ungrouped_formula_editable_by_all [OF found nogroup, where uid = "''u2''"
      and ctx = "signedIn ''u2''" and u = "\<lparr> user_id = ''u2'' \<rparr>" and now = 20
      and ci = ?ci and fi = ?fi]
  from T have a: "ensureFormulaIsEditable exampleDb 3 ''u2'' = Inr freeFormula" by blast
  from T auth obtain d1 where
    b: "archiveFormula \<lparr> af_id = 3 \<rparr> (signedIn ''u2'') 20 exampleDb =
          (Inr \<lparr> success = True, data = None \<rparr>, d1)"
    and b': "find (\<lambda>f. f_id f = 3) (Formulas d1) =
          Some (freeFormula\<lparr> f_isActive := False, f_updatedAt := 20 \<rparr>)"
    by blast
  have ci: "ce_formulaId ?ci = 3" by simp
  from T auth ci obtain d2 ex where
    c: "createFormulaExample ?ci (signedIn ''u2'') 20 exampleDb =
          (Inr \<lparr> success = True, data = Some (ExampleData (Some ex)) \<rparr>, d2)"
    and c': "FormulaExamples d2 = FormulaExamples exampleDb @ [ex]"
      "e_formulaId ex = 3" "e_problem ex = ce_problem ?ci" "e_solution ex = ce_solution ?ci"
      "e_createdAt ex = 20"
    by blast
  have fi: "uf_id ?fi = 3 \<and> (uf_groupId ?fi = None
      \<or> (\<exists>dest grp. uf_groupId ?fi = Some dest
            \<and> getOwnedGroup exampleDb dest (user_id \<lparr> user_id = ''u2'' \<rparr>) = Inr grp))"
    by simp
  from T auth fi obtain d3 fm' where
    e: "updateFormula ?fi (signedIn ''u2'') 20 exampleDb =
          (Inr \<lparr> success = True, data = Some (FormulaData (Some fm')) \<rparr>, d3)"
    and e': "find (\<lambda>f. f_id f = 3) (Formulas d3) = Some fm'"
    and fm': "fm' = freeFormula\<lparr>
         f_groupId := (case uf_groupId ?fi of None \<Rightarrow> f_groupId freeFormula | Some v \<Rightarrow> Some v),
         f_name := (case uf_name ?fi of None \<Rightarrow> f_name freeFormula | Some v \<Rightarrow> v),
         f_expression :=
           (case uf_expression ?fi of None \<Rightarrow> f_expression freeFormula | Some v \<Rightarrow> v),
         f_description :=
           (case uf_description ?fi of None \<Rightarrow> f_description freeFormula | Some v \<Rightarrow> Some v),
         f_variables :=
           (case uf_variables ?fi of None \<Rightarrow> f_variables freeFormula | Some v \<Rightarrow> Some v),
         f_meta := (case uf_meta ?fi of None \<Rightarrow> f_meta freeFormula | Some v \<Rightarrow> Some v),
         f_difficulty :=
           (case uf_difficulty ?fi of None \<Rightarrow> f_difficulty freeFormula | Some v \<Rightarrow> v),
         f_isActive := (case uf_isActive ?fi of None \<Rightarrow> f_isActive freeFormula | Some v \<Rightarrow> v),
         f_updatedAt := 20 \<rparr>"
    by blast
  from fm' have fm'': "fm' = freeFormula\<lparr> f_name := ''Ohm law'', f_updatedAt := 20 \<rparr>"
    by (simp add: example_defs)
  have ex: "\<exists>ex. fst (createFormulaExample ?ci (signedIn ''u2'') 20 exampleDb)
          = Inr \<lparr> success = True, data = Some (ExampleData (Some ex)) \<rparr>
        \<and> FormulaExamples (snd (createFormulaExample ?ci (signedIn ''u2'') 20 exampleDb)) = [ex]
        \<and> e_formulaId ex = 3 \<and> e_problem ex = ''R = 2, I = 3'' \<and> e_solution ex = ''V = 6''
        \<and> e_createdAt ex = 20"
    using c c' by (intro exI [where x = ex]) (simp add: example_defs)
  from a b b' e e' ex show ?thesis by (simp add: fm'')
qed

section \<open>C9: listing the examples of a formula\<close>

text \<open>
  Claim C9. \<open>listFormulaExamples\<close> never fails with NOT_FOUND, whoever calls it. For a
  signed-in caller and every formula id, whether a formula has that id or not, it
  succeeds, leaves the database as it is, and returns the examples whose \<open>formulaId\<close> is
  the id, in table order, with \<open>total\<close> their number.
\<close>

theorem listFormulaExamples_total:
  "fst (listFormulaExamples input ctx now d) \<noteq> Inl (ActionError NOT_FOUND m)
   \<and> (requireUser ctx = Inr u \<longrightarrow>
        listFormulaExamples input ctx now d =
          (Inr \<lparr> success = True,
                 data = Some (ExampleItems
                   (filter (\<lambda>x. e_formulaId x = le_formulaId input) (FormulaExamples d))
                   (length (filter (\<lambda>x. e_formulaId x = le_formulaId input) (FormulaExamples d)))) \<rparr>,
           d))"
  by (auto simp: listFormulaExamples_def requireUser_def select_where_def Let_def
      split: option.splits)

text \<open>
  A database with no formula at all and two examples: listing the id 99 gives the one
  example stored for it, listing the id 42 gives the empty list.
\<close>

theorem listFormulaExamples_total_witness:
  "listFormulaExamples \<lparr> le_formulaId = 99 \<rparr> (signedIn ''u2'') 20
      \<lparr> FormulaGroups = [], Formulas = [],
        FormulaExamples =
          [\<lparr> e_id = 1, e_formulaId = 99, e_title = None, e_problem = ''p'', e_solution = ''s'',
             e_data = None, e_createdAt = 5 \<rparr>,
           \<lparr> e_id = 2, e_formulaId = 7, e_title = None, e_problem = ''q'', e_solution = ''t'',
             e_data = None, e_createdAt = 6 \<rparr>],
        UserFormulaState = [] \<rparr>
    = (Inr \<lparr> success = True,
             data = Some (ExampleItems
               [\<lparr> e_id = 1, e_formulaId = 99, e_title = None, e_problem = ''p'',
                  e_solution = ''s'', e_data = None, e_createdAt = 5 \<rparr>] 1) \<rparr>,
       \<lparr> FormulaGroups = [], Formulas = [],
        FormulaExamples =
          [\<lparr> e_id = 1, e_formulaId = 99, e_title = None, e_problem = ''p'', e_solution = ''s'',
             e_data = None, e_createdAt = 5 \<rparr>,
           \<lparr> e_id = 2, e_formulaId = 7, e_title = None, e_problem = ''q'', e_solution = ''t'',
             e_data = None, e_createdAt = 6 \<rparr>],
        UserFormulaState = [] \<rparr>)
   \<and> listFormulaExamples \<lparr> le_formulaId = 42 \<rparr> (signedIn ''u2'') 20 exampleDb
    = (Inr \<lparr> success = True, data = Some (ExampleItems [] 0) \<rparr>, exampleDb)"
proof -
  have auth: "requireUser (signedIn ''u2'') = Inr \<lparr> user_id = ''u2'' \<rparr>"
    by (simp add: requireUser_def signedIn_def)
  show ?thesis
    using listFormulaExamples_total [where input = "\<lparr> le_formulaId = 99 \<rparr>"
        and ctx = "signedIn ''u2''" and u = "\<lparr> user_id = ''u2'' \<rparr>" and now = 20
        and d = "\<lparr> FormulaGroups = [], Formulas = [],
          FormulaExamples =
            [\<lparr> e_id = 1, e_formulaId = 99, e_title = None, e_problem = ''p'', e_solution = ''s'',
               e_data = None, e_createdAt = 5 \<rparr>,
             \<lparr> e_id = 2, e_formulaId = 7, e_title = None, e_problem = ''q'', e_solution = ''t'',
               e_data = None, e_createdAt = 6 \<rparr>],
          UserFormulaState = [] \<rparr>", THEN conjunct2]
      listFormulaExamples_total [where input = "\<lparr> le_formulaId = 42 \<rparr>"
        and ctx = "signedIn ''u2''" and u = "\<lparr> user_id = ''u2'' \<rparr>" and now = 20
        and d = exampleDb, THEN conjunct2]
      auth
    by (simp add: example_defs)
qed

section \<open>C10: listing the states of the caller\<close>

text \<open>
  Claim C10. For a signed-in caller \<open>listUserFormulaStates\<close> succeeds, leaves the
  database as it is, and returns exactly the state rows whose \<open>userId\<close> is the id of the
  caller, and of these only the favourites when \<open>favoritesOnly\<close> is set; every returned
  row belongs to the caller, and \<open>total\<close> is the number of returned rows.
\<close>

theorem listUserFormulaStates_own_rows:
  assumes auth: "requireUser ctx = Inr u"
  shows "\<exists>items.
      listUserFormulaStates input ctx now d =
        (Inr \<lparr> success = True, data = Some (StateItems items (length items)) \<rparr>, d)
    \<and> items = filter
          (\<lambda>s. s_userId s = user_id u
               \<and> ((case input of None \<Rightarrow> False | Some i \<Rightarrow> ls_favoritesOnly i) \<longrightarrow> s_isFavorite s))
          (UserFormulaState d)
    \<and> (\<forall>s \<in> set items. s_userId s = user_id u)"
proof -
  have eq: "(\<lambda>s. list_all (\<lambda>c. c s)
              ([\<lambda>s. s_userId s = user_id u] @ (if fav then [\<lambda>s. s_isFavorite s = True] else [])))
          = (\<lambda>s. s_userId s = user_id u \<and> (fav \<longrightarrow> s_isFavorite s))" for fav
    by (cases fav) auto
  show ?thesis
    using auth by (simp add: listUserFormulaStates_def select_where_def Let_def eq)
qed

text \<open>
  Two callers with a state each on the same formula: \<open>u1\<close>, with no input, gets only
  the own row; \<open>u2\<close>, with \<open>favoritesOnly\<close> set, gets nothing, the row of \<open>u2\<close> not
  being a favourite and the favourite being the row of \<open>u1\<close>.
\<close>

theorem listUserFormulaStates_own_rows_witness:
  "listUserFormulaStates None (signedIn ''u1'') 20
      (exampleDb\<lparr> UserFormulaState :=
        [\<lparr> s_id = 1, s_userId = ''u1'', s_formulaId = 3, s_isFavorite = True, s_note = None,
           s_familiarity = Learning, s_createdAt = 15, s_updatedAt = 15 \<rparr>,
         \<lparr> s_id = 2, s_userId = ''u2'', s_formulaId = 3, s_isFavorite = False, s_note = None,
           s_familiarity = New, s_createdAt = 16, s_updatedAt = 16 \<rparr>] \<rparr>)
    = (Inr \<lparr> success = True,
             data = Some (StateItems
               [\<lparr> s_id = 1, s_userId = ''u1'', s_formulaId = 3, s_isFavorite = True,
                  s_note = None, s_familiarity = Learning, s_createdAt = 15,
                  s_updatedAt = 15 \<rparr>] 1) \<rparr>,
       exampleDb\<lparr> UserFormulaState :=
        [\<lparr> s_id = 1, s_userId = ''u1'', s_formulaId = 3, s_isFavorite = True, s_note = None,
           s_familiarity = Learning, s_createdAt = 15, s_updatedAt = 15 \<rparr>,
         \<lparr> s_id = 2, s_userId = ''u2'', s_formulaId = 3, s_isFavorite = False, s_note = None,
           s_familiarity = New, s_createdAt = 16, s_updatedAt = 16 \<rparr>] \<rparr>)
   \<and> fst (listUserFormulaStates (Some \<lparr> ls_favoritesOnly = True \<rparr>) (signedIn ''u2'') 20
      (exampleDb\<lparr> UserFormulaState :=
        [\<lparr> s_id = 1, s_userId = ''u1'', s_formulaId = 3, s_isFavorite = True, s_note = None,
           s_familiarity = Learning, s_createdAt = 15, s_updatedAt = 15 \<rparr>,
         \<lparr> s_id = 2, s_userId = ''u2'', s_formulaId = 3, s_isFavorite = False, s_note = None,
           s_familiarity = New, s_createdAt = 16, s_updatedAt = 16 \<rparr>] \<rparr>))
    = Inr \<lparr> success = True, data = Some (StateItems [] 0) \<rparr>"
proof -
  let ?d = "exampleDb\<lparr> UserFormulaState :=
        [\<lparr> s_id = 1, s_userId = ''u1'', s_formulaId = 3, s_isFavorite = True, s_note = None,
           s_familiarity = Learning, s_createdAt = 15, s_updatedAt = 15 \<rparr>,
         \<lparr> s_id = 2, s_userId = ''u2'', s_formulaId = 3, s_isFavorite = False, s_note = None,
           s_familiarity = New, s_createdAt = 16, s_updatedAt = 16 \<rparr>] \<rparr>"
  have auth1: "requireUser (signedIn ''u1'') = Inr \<lparr> user_id = ''u1'' \<rparr>"
    and auth2: "requireUser (signedIn ''u2'') = Inr \<lparr> user_id = ''u2'' \<rparr>"
    by (simp_all add: requireUser_def signedIn_def)
  from listUserFormulaStates_own_rows [OF auth1, of None 20 ?d]
  have a: "listUserFormulaStates None (signedIn ''u1'') 20 ?d
    = (Inr \<lparr> success = True,
             data = Some (StateItems
               [\<lparr> s_id = 1, s_userId = ''u1'', s_formulaId = 3, s_isFavorite = True,
                  s_note = None, s_familiarity = Learning, s_createdAt = 15,
                  s_updatedAt = 15 \<rparr>] 1) \<rparr>, ?d)"
    by auto
  from listUserFormulaStates_own_rows [OF auth2, of "Some \<lparr> ls_favoritesOnly = True \<rparr>" 20 ?d]
  have b: "fst (listUserFormulaStates (Some \<lparr> ls_favoritesOnly = True \<rparr>) (signedIn ''u2'') 20 ?d)
    = Inr \<lparr> success = True, data = Some (StateItems [] 0) \<rparr>"
    by auto
  from a b show ?thesis by simp
qed

end
